theory Spec2Isabelle
  imports Complex_Main
begin

section \<open>Python values, exceptions and strings\<close>

text \<open>
  The training script \<^verbatim>\<open>train.py\<close> is embedded function by function. Python exceptions are
  values of the type \<open>error\<close>; a function that can raise returns \<open>error + 'a\<close>, with
  \<open>Inl\<close> for the raised exception. Strings are byte strings (UTF-8). \<open>SaveError\<close>
  stands for the exception that \<^verbatim>\<open>torch.save\<close> raises when it cannot write to a path.
\<close>

datatype error =
    ArgumentTypeError string
  | ValueError
  | UnboundLocalError
  | KeyError string
  | TypeError
  | FileNotFoundError string
  | SaveError string
  | SystemExit int

definition bind_err :: "'e + 'a \<Rightarrow> ('a \<Rightarrow> 'e + 'b) \<Rightarrow> 'e + 'b" where
  "bind_err m f = (case m of Inl e \<Rightarrow> Inl e | Inr x \<Rightarrow> f x)"

text \<open>\<^verbatim>\<open>str.lower()\<close>: the letters A to Z are mapped to a to z. Bytes of a non-ASCII code
  point are left as they are (no non-ASCII code point lower-cases to a string made of the
  ASCII letters and digits that \<open>str2bool\<close> compares with).\<close>

definition lower_char :: "char \<Rightarrow> char" where
  "lower_char c =
     (let n = (of_char c :: nat) in if 65 \<le> n \<and> n \<le> 90 then char_of (n + 32) else c)"

definition str_lower :: "string \<Rightarrow> string" where
  "str_lower v = map lower_char v"

text \<open>\<^verbatim>\<open>str(n)\<close> for a Python integer: the decimal digits, with a minus sign for a negative
  number.\<close>

definition digit_char :: "nat \<Rightarrow> char" where
  "digit_char d = char_of (48 + d)"

function str_nat :: "nat \<Rightarrow> string" where
  "str_nat n = (if n < 10 then [digit_char n] else str_nat (n div 10) @ [digit_char (n mod 10)])"
  by pat_completeness auto
termination
  by (relation "measure (\<lambda>n. n)") auto

declare str_nat.simps [simp del]

definition str_int :: "int \<Rightarrow> string" where
  "str_int i = (if i < 0 then CHR ''-'' # str_nat (nat (- i)) else str_nat (nat i))"

text \<open>\<^verbatim>\<open>os.path.join(a, b)\<close> of \<^verbatim>\<open>posixpath\<close>, for two components.\<close>

definition os_path_join :: "string \<Rightarrow> string \<Rightarrow> string" where
  "os_path_join a b =
     (if b \<noteq> [] \<and> hd b = CHR ''/'' then b
      else if a = [] \<or> last a = CHR ''/'' then a @ b
      else a @ ''/'' @ b)"

section \<open>The boolean argument parser\<close>

text \<open>
  \<^verbatim>\<open>
  def str2bool(v):
      if v.lower() in ('yes', 'true', 't', 'y', '1'):
          return True
      elif v.lower() in ('no', 'false', 'f', 'n', '0'):
          return False
      else:
          raise argparse.ArgumentTypeError('Boolean value expected')
  \<close>
\<close>

definition str2bool :: "string \<Rightarrow> error + bool" where
  "str2bool v =
     (if str_lower v \<in> set [''yes'', ''true'', ''t'', ''y'', ''1''] then Inr True
      else if str_lower v \<in> set [''no'', ''false'', ''f'', ''n'', ''0''] then Inr False
      else Inl (ArgumentTypeError ''Boolean value expected''))"

section \<open>Command-line arguments\<close>

text \<open>\<^verbatim>\<open>int(s)\<close> for a string: surrounding white space is stripped, one sign is allowed,
  then decimal digits follow, where single underscores may stand between two digits. Any
  other string raises \<^verbatim>\<open>ValueError\<close>. The white space that is stripped from an ASCII
  string is tab, line feed, vertical tab, form feed, carriage return and space (the
  characters 9 to 13 and 32). Strings are taken to be ASCII: the Unicode white space and
  the Unicode decimal digits that Python also accepts in other strings are not modelled.\<close>

definition is_space :: "char \<Rightarrow> bool" where
  "is_space c = ((of_char c :: nat) \<in> set [9, 10, 11, 12, 13, 32])"

definition str_strip :: "string \<Rightarrow> string" where
  "str_strip s = rev (dropWhile is_space (rev (dropWhile is_space s)))"

definition is_digit :: "char \<Rightarrow> bool" where
  "is_digit c = (48 \<le> (of_char c :: nat) \<and> (of_char c :: nat) \<le> 57)"

definition digit_val :: "char \<Rightarrow> nat" where
  "digit_val c = of_char c - 48"

fun int_digits :: "nat \<Rightarrow> string \<Rightarrow> nat option" where
  "int_digits acc [] = Some acc"
| "int_digits acc [c] = (if is_digit c then Some (acc * 10 + digit_val c) else None)"
| "int_digits acc (c # d # cs) =
     (if is_digit c then int_digits (acc * 10 + digit_val c) (d # cs)
      else if c = CHR ''_'' \<and> is_digit d then int_digits acc (d # cs)
      else None)"

definition int_literal :: "string \<Rightarrow> nat option" where
  "int_literal s =
     (case s of [] \<Rightarrow> None | c # cs \<Rightarrow> if is_digit c then int_digits 0 (c # cs) else None)"

definition py_int :: "string \<Rightarrow> error + int" where
  "py_int s =
     (case str_strip s of
        [] \<Rightarrow> Inl ValueError
      | c # cs \<Rightarrow>
          (case (if c = CHR ''-'' \<or> c = CHR ''+'' then int_literal cs else int_literal (c # cs)) of
             None \<Rightarrow> Inl ValueError
           | Some n \<Rightarrow> Inr (if c = CHR ''-'' then - int n else int n)))"

text \<open>\<^verbatim>\<open>s.split(',')\<close>: the pieces between the separators, at least one piece.\<close>

fun str_split :: "char \<Rightarrow> string \<Rightarrow> string list" where
  "str_split sep [] = [[]]"
| "str_split sep (c # cs) =
     (if c = sep then [] # str_split sep cs
      else (case str_split sep cs of [] \<Rightarrow> [[c]] | p # ps \<Rightarrow> (c # p) # ps))"

text \<open>\<^verbatim>\<open>','.join(parts)\<close>.\<close>

fun str_join :: "string \<Rightarrow> string list \<Rightarrow> string" where
  "str_join sep [] = []"
| "str_join sep [p] = p"
| "str_join sep (p # q # ps) = p @ sep @ str_join sep (q # ps)"

text \<open>A number held by an argument: \<^verbatim>\<open>--base_lr\<close> is declared with \<^verbatim>\<open>type=int\<close> and
  a floating-point default, so the field holds either kind.\<close>

datatype number = IntNum int | FloatNum real

text \<open>The namespace that \<^verbatim>\<open>parse_args\<close> returns, one field for each \<^verbatim>\<open>add_argument\<close>.\<close>

record args =
  workers :: int
  devices_id :: string
  test_initial :: bool
  base_lr :: number
  weight_decay :: real
  lr_patience :: int
  start_epoch :: int
  end_epoch :: int
  snapshot :: string
  log_file :: string
  tensorboard :: string
  resume :: string
  dataroot :: string
  val_dataroot :: string
  train_batchsize :: int
  val_batchsize :: int

text \<open>The defaults of the declarations. A default that is not a string is used as it is:
  the default of \<^verbatim>\<open>--base_lr\<close> stays the float 0.0001 although the type is \<^verbatim>\<open>int\<close>.
  The string default \<^verbatim>\<open>'false'\<close> of \<^verbatim>\<open>--test_initial\<close> goes through \<open>str2bool\<close>,
  which gives \<open>False\<close>.\<close>

definition default_args :: args where
  "default_args =
     \<lparr> workers = 16, devices_id = ''0'', test_initial = False,
       base_lr = FloatNum (1 / 10000), weight_decay = 1 / 1000000, lr_patience = 40,
       start_epoch = 1, end_epoch = 1000,
       snapshot = ''./checkpoint/snapshot/'', log_file = ''./checkpoint/train.logs'',
       tensorboard = ''./checkpoint/tensorboard'', resume = [],
       dataroot = ''./data/train_data/list.txt'', val_dataroot = ''./data/test_data/list.txt'',
       train_batchsize = 128, val_batchsize = 8 \<rparr>"

text \<open>\<^verbatim>\<open>argparse\<close> applies the declared type to the argument string; when the type
  function raises, the parser reports the error and exits with status 2.\<close>

definition get_value :: "(string \<Rightarrow> error + 'a) \<Rightarrow> string \<Rightarrow> error + 'a" where
  "get_value type_func v = (case type_func v of Inl e \<Rightarrow> Inl (SystemExit 2) | Inr x \<Rightarrow> Inr x)"

text \<open>\<^verbatim>\<open>float(s)\<close> is a builtin that is not modelled: it is the parameter \<open>py_float\<close>,
  which gives \<open>None\<close> where \<^verbatim>\<open>float\<close> raises.\<close>

definition float_type :: "(string \<Rightarrow> real option) \<Rightarrow> string \<Rightarrow> error + real" where
  "float_type py_float v = (case py_float v of None \<Rightarrow> Inl ValueError | Some r \<Rightarrow> Inr r)"

text \<open>One option of the command line with its argument string, as declared in
  \<^verbatim>\<open>parse_args\<close> (lines 195 to 236). The command line is modelled as the list of its
  (option string, argument string) pairs; abbreviated option strings are not modelled.\<close>

definition set_option :: "(string \<Rightarrow> real option) \<Rightarrow> args \<Rightarrow> string \<times> string \<Rightarrow> error + args" where
  "set_option py_float a ov =
     (let opt = fst ov; v = snd ov in
      if opt = ''-j'' \<or> opt = ''--workers'' then
        bind_err (get_value py_int v) (\<lambda>n. Inr (a\<lparr>workers := n\<rparr>))
      else if opt = ''--devices_id'' then Inr (a\<lparr>devices_id := v\<rparr>)
      else if opt = ''--test_initial'' then
        bind_err (get_value str2bool v) (\<lambda>b. Inr (a\<lparr>test_initial := b\<rparr>))
      else if opt = ''--base_lr'' then
        bind_err (get_value py_int v) (\<lambda>n. Inr (a\<lparr>base_lr := IntNum n\<rparr>))
      else if opt = ''--weight-decay'' \<or> opt = ''--wd'' then
        bind_err (get_value (float_type py_float) v) (\<lambda>r. Inr (a\<lparr>weight_decay := r\<rparr>))
      else if opt = ''--lr_patience'' then
        bind_err (get_value py_int v) (\<lambda>n. Inr (a\<lparr>lr_patience := n\<rparr>))
      else if opt = ''--start_epoch'' then
        bind_err (get_value py_int v) (\<lambda>n. Inr (a\<lparr>start_epoch := n\<rparr>))
      else if opt = ''--end_epoch'' then
        bind_err (get_value py_int v) (\<lambda>n. Inr (a\<lparr>end_epoch := n\<rparr>))
      else if opt = ''--snapshot'' then Inr (a\<lparr>snapshot := v\<rparr>)
      else if opt = ''--log_file'' then Inr (a\<lparr>log_file := v\<rparr>)
      else if opt = ''--tensorboard'' then Inr (a\<lparr>tensorboard := v\<rparr>)
      else if opt = ''--resume'' then Inr (a\<lparr>resume := v\<rparr>)
      else if opt = ''--dataroot'' then Inr (a\<lparr>dataroot := v\<rparr>)
      else if opt = ''--val_dataroot'' then Inr (a\<lparr>val_dataroot := v\<rparr>)
      else if opt = ''--train_batchsize'' then
        bind_err (get_value py_int v) (\<lambda>n. Inr (a\<lparr>train_batchsize := n\<rparr>))
      else if opt = ''--val_batchsize'' then
        bind_err (get_value py_int v) (\<lambda>n. Inr (a\<lparr>val_batchsize := n\<rparr>))
      else Inl (SystemExit 2))"

fun parse_options :: "(string \<Rightarrow> real option) \<Rightarrow> args \<Rightarrow> (string \<times> string) list \<Rightarrow> error + args" where
  "parse_options py_float a [] = Inr a"
| "parse_options py_float a (ov # rest) =
     bind_err (set_option py_float a ov) (\<lambda>a'. parse_options py_float a' rest)"

definition parse_args :: "(string \<Rightarrow> real option) \<Rightarrow> (string \<times> string) list \<Rightarrow> error + args" where
  "parse_args py_float argv = parse_options py_float default_args argv"

section \<open>Tensors, modules and the framework\<close>

text \<open>A framework float is a number or \<^verbatim>\<open>nan\<close>; rounding is not modelled, arithmetic on
  numbers is exact. A two-dimensional tensor of plain data is the list of its rows.\<close>

datatype fl = NaN | Num real

type_synonym tensor = "real list list"

fun num_of :: "fl \<Rightarrow> real" where
  "num_of (Num r) = r"
| "num_of NaN = 0"

text \<open>\<^verbatim>\<open>a - b\<close> and \<^verbatim>\<open>a ** 2\<close>, element by element, for tensors of one shape.\<close>

definition tensor_sub :: "tensor \<Rightarrow> tensor \<Rightarrow> tensor" where
  "tensor_sub a b = map2 (map2 (\<lambda>x y. x - y)) a b"

definition tensor_pow2 :: "tensor \<Rightarrow> tensor" where
  "tensor_pow2 a = map (map (\<lambda>x. x ^ 2)) a"

text \<open>\<^verbatim>\<open>torch.sum(t, axis=1)\<close>: one sum for each row.\<close>

definition torch_sum_axis1 :: "tensor \<Rightarrow> real list" where
  "torch_sum_axis1 a = map sum_list a"

text \<open>\<^verbatim>\<open>torch.mean\<close> of a one-dimensional tensor; the mean of no element is \<^verbatim>\<open>nan\<close>.\<close>

definition torch_mean :: "real list \<Rightarrow> fl" where
  "torch_mean v = (if v = [] then NaN else Num (sum_list v / real (length v)))"

text \<open>\<^verbatim>\<open>np.mean\<close> of a list of floats; \<^verbatim>\<open>nan\<close> for the empty list and when an element
  is \<^verbatim>\<open>nan\<close>.\<close>

definition np_mean :: "fl list \<Rightarrow> fl" where
  "np_mean ls =
     (if ls = [] \<or> NaN \<in> set ls then NaN
      else Num (sum_list (map num_of ls) / real (length ls)))"

text \<open>One batch of a data loader: the tuple
  \<^verbatim>\<open>(img, landmark_gt, attribute_gt, euler_angle_gt)\<close>.\<close>

record 'x batch =
  img :: 'x
  landmark_gt :: tensor
  attribute_gt :: tensor
  euler_angle_gt :: tensor

text \<open>A network (\<^verbatim>\<open>nn.Module\<close>): its mode flag and its state dictionary (parameters and
  buffers). A \<^verbatim>\<open>DataParallel\<close> wrapper shares both with the module it wraps.\<close>

record 'w module =
  training :: bool
  state_dict :: 'w

text \<open>Modelled from the spec: \<^verbatim>\<open>utils.utils.AverageMeter\<close> is imported and not among the
  sources. The spec describes an accumulator of scalar loss values whose reported mean is the
  arithmetic mean of all values passed to it since the last reset.\<close>

record AverageMeter =
  meter_sum :: real
  meter_count :: nat
  meter_avg :: real

definition AverageMeter_new :: AverageMeter where
  "AverageMeter_new = \<lparr> meter_sum = 0, meter_count = 0, meter_avg = 0 \<rparr>"

definition meter_update :: "AverageMeter \<Rightarrow> real \<Rightarrow> AverageMeter" where
  "meter_update m v =
     \<lparr> meter_sum = meter_sum m + v, meter_count = meter_count m + 1,
       meter_avg = (meter_sum m + v) / real (meter_count m + 1) \<rparr>"

text \<open>
  The collaborators that the script imports: the two networks, the loss, the optimizer with
  its learning-rate scheduler, and the data loaders. They are parameters of the model.
  \<^item> \<open>'w\<close> is a state dictionary, \<open>'x\<close> an image tensor, \<open>'v\<close> a tensor that a network or
    the loss returns (with its gradient graph), \<open>'o\<close> the optimizer with its scheduler.
  \<^item> A forward call depends on the mode of the module; in training mode it also updates
    the buffers of the module (\<open>backbone_buffers\<close>, \<open>auxiliary_buffers\<close>), in evaluation
    mode it changes nothing.
  \<^item> \<open>optimizer_step\<close> stands for \<^verbatim>\<open>optimizer.zero_grad(); weighted_loss.backward();
    optimizer.step()\<close>.
  \<^item> The training loader shuffles: the batches it yields depend on the pass, here indexed
    by the epoch.
  \<^item> \<open>writable\<close> tells for which paths \<^verbatim>\<open>torch.save\<close> succeeds (the directory exists
    and can be written to); for the other paths it raises.
\<close>

record ('w, 'x, 'v, 'o) framework =
  PFLDInference :: 'w
  AuxiliaryNet :: 'w
  backbone_forward :: "bool \<Rightarrow> 'w \<Rightarrow> 'x \<Rightarrow> 'v \<times> 'v"
  backbone_buffers :: "'w \<Rightarrow> 'x \<Rightarrow> 'w"
  auxiliary_forward :: "bool \<Rightarrow> 'w \<Rightarrow> 'v \<Rightarrow> 'v"
  auxiliary_buffers :: "'w \<Rightarrow> 'v \<Rightarrow> 'w"
  PFLDLoss :: "tensor \<Rightarrow> tensor \<Rightarrow> tensor \<Rightarrow> 'v \<Rightarrow> 'v \<Rightarrow> int \<Rightarrow> 'v \<times> 'v"
  tensor_data :: "'v \<Rightarrow> tensor"
  item :: "'v \<Rightarrow> real"
  Adam :: "number \<Rightarrow> real \<Rightarrow> int \<Rightarrow> 'o"
  optimizer_step :: "'o \<Rightarrow> 'v \<Rightarrow> 'w \<times> 'w \<Rightarrow> 'o \<times> 'w \<times> 'w"
  ReduceLROnPlateau_step :: "'o \<Rightarrow> fl \<Rightarrow> 'o"
  DataLoader_train :: "string \<Rightarrow> int \<Rightarrow> int \<Rightarrow> 'x batch list"
  DataLoader_val :: "string \<Rightarrow> int \<Rightarrow> 'x batch list"
  writable :: "string \<Rightarrow> bool"

section \<open>The state of a run\<close>

text \<open>What a checkpoint file holds: the dictionary that \<^verbatim>\<open>torch.save\<close> wrote.\<close>

datatype 'w entry = Epoch int | Weights 'w

type_synonym 'w checkpoint = "string \<rightharpoonup> 'w entry"

text \<open>The actions of a run, in the order in which they happen. A forward call records the
  mode of the module and whether gradient tracking was enabled when it ran.\<close>

datatype 'v event =
    Call_train int
  | Forward_backbone bool bool
  | Forward_auxiliary bool bool
  | Optimizer_step
  | Save_checkpoint int string
  | Call_validate int
  | Scheduler_step fl
  | Add_scalar string 'v int
  | Add_scalars string fl 'v int
  | Writer_close

record ('w, 'v, 'o) state =
  plfd_backbone :: "'w module"
  auxiliarynet :: "'w module"
  optimizer :: 'o
  grad_enabled :: bool
  environ :: "string \<rightharpoonup> string"
  files :: "string \<rightharpoonup> 'w checkpoint"
  events :: "'v event list"

definition emit :: "'v event list \<Rightarrow> ('w, 'v, 'o) state \<Rightarrow> ('w, 'v, 'o) state" where
  "emit evs s = s\<lparr>events := events s @ evs\<rparr>"

text \<open>A forward call of a module in its current mode: the buffers change in training mode
  only.\<close>

definition forward_update :: "('w \<Rightarrow> 'w) \<Rightarrow> 'w module \<Rightarrow> 'w module" where
  "forward_update upd m = (if training m then m\<lparr>state_dict := upd (state_dict m)\<rparr> else m)"

section \<open>The training pass\<close>

text \<open>
  \<^verbatim>\<open>
  def train(train_loader, plfd_backbone, auxiliarynet, GPUs, criterion, optimizer, epoch):
      losses = AverageMeter()
      if len(GPUs) > 0:
          gpus = ','.join([str(x) for x in GPUs])
          os.environ['CUDA_VISIBLE_DEVICES'] = gpus
          ... (both networks wrapped in nn.DataParallel and moved to the device)
      for img, landmark_gt, attribute_gt, euler_angle_gt in train_loader:
          ...
          features, landmarks = plfd_backbone(img)
          angle = auxiliarynet(features)
          weighted_loss, loss = criterion(attribute_gt, landmark_gt, euler_angle_gt,
                                      angle, landmarks, args.train_batchsize)
          optimizer.zero_grad()
          weighted_loss.backward()
          optimizer.step()
          losses.update(loss.item())
      return weighted_loss, loss
  \<close>
  The local variables of the loop are the meter \<open>losses\<close> and the pair
  \<open>(weighted_loss, loss)\<close>, which is unbound until the first batch has been processed.
\<close>

type_synonym ('w, 'v, 'o) train_vars = "AverageMeter \<times> ('v \<times> 'v) option \<times> ('w, 'v, 'o) state"

text \<open>Lines 69 to 72: the outputs of the two networks for a batch, in the current modes and
  with the current weights, and the pair \<open>(weighted_loss, loss)\<close> that the criterion
  computes from them.\<close>

definition network_outputs ::
  "('w, 'x, 'v, 'o) framework \<Rightarrow> 'x batch \<Rightarrow> ('w, 'v, 'o) state \<Rightarrow> 'v \<times> 'v \<times> 'v" where
  "network_outputs fw b s =
     (let bb = plfd_backbone s; ax = auxiliarynet s;
          out = backbone_forward fw (training bb) (state_dict bb) (img b);
          features = fst out; landmarks = snd out;
          angle = auxiliary_forward fw (training ax) (state_dict ax) features
      in (features, landmarks, angle))"

definition criterion ::
  "('w, 'x, 'v, 'o) framework \<Rightarrow> args \<Rightarrow> 'x batch \<Rightarrow> ('w, 'v, 'o) state \<Rightarrow> 'v \<times> 'v" where
  "criterion fw a b s =
     (let outs = network_outputs fw b s; landmarks = fst (snd outs); angle = snd (snd outs)
      in PFLDLoss fw (attribute_gt b) (landmark_gt b) (euler_angle_gt b) angle landmarks
           (train_batchsize a))"

definition train_batch ::
  "('w, 'x, 'v, 'o) framework \<Rightarrow> args \<Rightarrow> 'x batch \<Rightarrow> ('w, 'v, 'o) train_vars \<Rightarrow> ('w, 'v, 'o) train_vars" where
  "train_batch fw a b vars =
     (let losses = fst vars; s = snd (snd vars);
          features = fst (network_outputs fw b s);
          bb1 = forward_update (\<lambda>w. backbone_buffers fw w (img b)) (plfd_backbone s);
          ax1 = forward_update (\<lambda>w. auxiliary_buffers fw w features) (auxiliarynet s);
          both = criterion fw a b s;
          weighted_loss = fst both; loss = snd both;
          upd = optimizer_step fw (optimizer s) weighted_loss (state_dict bb1, state_dict ax1);
          s1 = s\<lparr> plfd_backbone := bb1\<lparr>state_dict := fst (snd upd)\<rparr>,
                  auxiliarynet := ax1\<lparr>state_dict := snd (snd upd)\<rparr>,
                  optimizer := fst upd \<rparr>
      in (meter_update losses (item fw loss), Some (weighted_loss, loss),
          emit [Forward_backbone (training (plfd_backbone s)) (grad_enabled s),
                Forward_auxiliary (training (auxiliarynet s)) (grad_enabled s), Optimizer_step] s1))"

fun train_loop ::
  "('w, 'x, 'v, 'o) framework \<Rightarrow> args \<Rightarrow> 'x batch list \<Rightarrow> ('w, 'v, 'o) train_vars \<Rightarrow> ('w, 'v, 'o) train_vars" where
  "train_loop fw a [] vars = vars"
| "train_loop fw a (b # bs) vars = train_loop fw a bs (train_batch fw a b vars)"

definition train_begin :: "int list \<Rightarrow> int \<Rightarrow> ('w, 'v, 'o) state \<Rightarrow> ('w, 'v, 'o) train_vars" where
  "train_begin GPUs epoch s =
     (let s0 = emit [Call_train epoch] s;
          s1 = (if length GPUs > 0
                then s0\<lparr>environ := (environ s0)(''CUDA_VISIBLE_DEVICES'' \<mapsto> str_join '','' (map str_int GPUs))\<rparr>
                else s0)
      in (AverageMeter_new, None, s1))"

definition train ::
  "('w, 'x, 'v, 'o) framework \<Rightarrow> args \<Rightarrow> 'x batch list \<Rightarrow> int list \<Rightarrow> int \<Rightarrow> ('w, 'v, 'o) state
     \<Rightarrow> error + (('v \<times> 'v) \<times> ('w, 'v, 'o) state)" where
  "train fw a train_loader GPUs epoch s =
     (let vars = train_loop fw a train_loader (train_begin GPUs epoch s)
      in case fst (snd vars) of
           None \<Rightarrow> Inl UnboundLocalError
         | Some result \<Rightarrow> Inr (result, snd (snd vars)))"

section \<open>The validation pass\<close>

text \<open>
  \<^verbatim>\<open>
  def validate(wlfw_val_dataloader, plfd_backbone, auxiliarynet, criterion, epoch):
      plfd_backbone.eval()
      auxiliarynet.eval()
      losses = []
      with torch.no_grad():
          for img, landmark_gt, attribute_gt, euler_angle_gt in wlfw_val_dataloader:
              ...
              _, landmark = plfd_backbone(img)
              loss = torch.mean(torch.sum((landmark_gt - landmark)**2, axis=1))
              losses.append(loss.cpu().numpy())
      return np.mean(losses)
  \<close>
\<close>

definition batch_loss :: "tensor \<Rightarrow> tensor \<Rightarrow> fl" where
  "batch_loss gt landmark = torch_mean (torch_sum_axis1 (tensor_pow2 (tensor_sub gt landmark)))"

definition validate_batch ::
  "('w, 'x, 'v, 'o) framework \<Rightarrow> 'x batch \<Rightarrow> fl list \<times> ('w, 'v, 'o) state \<Rightarrow> fl list \<times> ('w, 'v, 'o) state" where
  "validate_batch fw b vars =
     (let losses = fst vars; s = snd vars;
          bb = plfd_backbone s;
          landmark = snd (backbone_forward fw (training bb) (state_dict bb) (img b));
          bb1 = forward_update (\<lambda>w. backbone_buffers fw w (img b)) bb;
          loss = batch_loss (landmark_gt b) (tensor_data fw landmark)
      in (losses @ [loss],
          emit [Forward_backbone (training bb) (grad_enabled s)] (s\<lparr>plfd_backbone := bb1\<rparr>)))"

fun validate_loop ::
  "('w, 'x, 'v, 'o) framework \<Rightarrow> 'x batch list \<Rightarrow> fl list \<times> ('w, 'v, 'o) state \<Rightarrow> fl list \<times> ('w, 'v, 'o) state" where
  "validate_loop fw [] vars = vars"
| "validate_loop fw (b # bs) vars = validate_loop fw bs (validate_batch fw b vars)"

definition validate ::
  "('w, 'x, 'v, 'o) framework \<Rightarrow> 'x batch list \<Rightarrow> int \<Rightarrow> ('w, 'v, 'o) state \<Rightarrow> fl \<times> ('w, 'v, 'o) state" where
  "validate fw wlfw_val_dataloader epoch s =
     (let s0 = emit [Call_validate epoch] s;
          s1 = s0\<lparr> plfd_backbone := (plfd_backbone s0)\<lparr>training := False\<rparr>,
                   auxiliarynet := (auxiliarynet s0)\<lparr>training := False\<rparr> \<rparr>;
          vars = validate_loop fw wlfw_val_dataloader ([], s1\<lparr>grad_enabled := False\<rparr>);
          s2 = (snd vars)\<lparr>grad_enabled := grad_enabled s1\<rparr>
      in (np_mean (fst vars), s2))"

section \<open>Checkpoints and the epoch loop\<close>

text \<open>
  \<^verbatim>\<open>
  def save_checkpoint(state, filename='checkpoint.pth.tar'):
      torch.save(state, filename)
      logging.info('Save checkpoint to {0:}'.format(filename))
  \<close>
  The event stands for the write and its log line. A write that fails raises, and nothing
  handles the exception.
\<close>

definition checkpoint_filename :: "string \<Rightarrow> int \<Rightarrow> string" where
  "checkpoint_filename snapshot_dir epoch =
     os_path_join snapshot_dir (''checkpoint_epoch_'' @ str_int epoch @ ''.pth.tar'')"

definition checkpoint_record :: "int \<Rightarrow> ('w, 'v, 'o) state \<Rightarrow> 'w checkpoint" where
  "checkpoint_record epoch s =
     [''epoch'' \<mapsto> Epoch epoch,
      ''plfd_backbone'' \<mapsto> Weights (state_dict (plfd_backbone s)),
      ''auxiliarynet'' \<mapsto> Weights (state_dict (auxiliarynet s))]"

definition save_checkpoint ::
  "('w, 'x, 'v, 'o) framework \<Rightarrow> int \<Rightarrow> 'w checkpoint \<Rightarrow> string \<Rightarrow> ('w, 'v, 'o) state
     \<Rightarrow> error + ('w, 'v, 'o) state" where
  "save_checkpoint fw epoch record filename s =
     (if writable fw filename
      then Inr (emit [Save_checkpoint epoch filename] (s\<lparr>files := (files s)(filename \<mapsto> record)\<rparr>))
      else Inl (SaveError filename))"

text \<open>
  One iteration of the loop of \<^verbatim>\<open>main\<close> (lines 172 to 188):
  \<^verbatim>\<open>
  for epoch in range(args.start_epoch, args.end_epoch + 1):
      weighted_train_loss, train_loss = train(dataloader, plfd_backbone, auxiliarynet, GPUs,
                                    criterion, optimizer, epoch)
      filename = os.path.join(
          str(args.snapshot), "checkpoint_epoch_" + str(epoch) + '.pth.tar')
      save_checkpoint({
          'epoch': epoch,
          'plfd_backbone': plfd_backbone.state_dict(),
          'auxiliarynet': auxiliarynet.state_dict()
      }, filename)
      val_loss = validate(wlfw_val_dataloader, plfd_backbone, auxiliarynet, criterion, epoch)
      scheduler.step(val_loss)
      writer.add_scalar('data/weighted_loss', weighted_train_loss, epoch)
      writer.add_scalars('data/loss', {'val loss': val_loss, 'train loss': train_loss}, epoch)
  \<close>
\<close>

definition epoch_body ::
  "('w, 'x, 'v, 'o) framework \<Rightarrow> args \<Rightarrow> int list \<Rightarrow> (int \<Rightarrow> 'x batch list) \<Rightarrow> 'x batch list \<Rightarrow> int
     \<Rightarrow> ('w, 'v, 'o) state \<Rightarrow> error + ('w, 'v, 'o) state" where
  "epoch_body fw a GPUs dataloader wlfw_val_dataloader epoch s =
     bind_err (train fw a (dataloader epoch) GPUs epoch s) (\<lambda>r.
       let weighted_train_loss = fst (fst r); train_loss = snd (fst r); s1 = snd r;
           filename = checkpoint_filename (snapshot a) epoch
       in bind_err (save_checkpoint fw epoch (checkpoint_record epoch s1) filename s1) (\<lambda>s2.
            let v = validate fw wlfw_val_dataloader epoch s2;
                val_loss = fst v; s3 = snd v;
                s4 = s3\<lparr>optimizer := ReduceLROnPlateau_step fw (optimizer s3) val_loss\<rparr>
            in Inr (emit [Scheduler_step val_loss,
                          Add_scalar ''data/weighted_loss'' weighted_train_loss epoch,
                          Add_scalars ''data/loss'' val_loss train_loss epoch] s4)))"

fun epoch_loop ::
  "('w, 'x, 'v, 'o) framework \<Rightarrow> args \<Rightarrow> int list \<Rightarrow> (int \<Rightarrow> 'x batch list) \<Rightarrow> 'x batch list \<Rightarrow> int list
     \<Rightarrow> ('w, 'v, 'o) state \<Rightarrow> error + ('w, 'v, 'o) state" where
  "epoch_loop fw a GPUs dataloader wlfw_val_dataloader [] s = Inr s"
| "epoch_loop fw a GPUs dataloader wlfw_val_dataloader (epoch # rest) s =
     bind_err (epoch_body fw a GPUs dataloader wlfw_val_dataloader epoch s)
       (epoch_loop fw a GPUs dataloader wlfw_val_dataloader rest)"

section \<open>The main function\<close>

text \<open>\<^verbatim>\<open>GPUs = [int(x) for x in args.devices_id.split(',')]\<close>\<close>

fun int_list :: "string list \<Rightarrow> error + int list" where
  "int_list [] = Inr []"
| "int_list (x # xs) = bind_err (py_int x) (\<lambda>n. bind_err (int_list xs) (\<lambda>ns. Inr (n # ns)))"

text \<open>\<^verbatim>\<open>module.load_state_dict(checkpoint[key])\<close>: a missing key raises \<^verbatim>\<open>KeyError\<close>, a
  value that is not a state dictionary is refused.\<close>

definition checkpoint_weights :: "'w checkpoint \<Rightarrow> string \<Rightarrow> error + 'w" where
  "checkpoint_weights checkpoint key =
     (case checkpoint key of
        None \<Rightarrow> Inl (KeyError key)
      | Some (Epoch n) \<Rightarrow> Inl TypeError
      | Some (Weights w) \<Rightarrow> Inr w)"

text \<open>
  Lines 129 to 135: the networks are constructed (a new module is in training mode), and
  \<^verbatim>\<open>
  if args.resume != '':
      checkpoint = torch.load(args.resume)
      plfd_backbone.load_state_dict(checkpoint['plfd_backbone'])
      auxiliarynet.load_state_dict(checkpoint['auxiliarynet'])
  \<close>
\<close>

definition load_models ::
  "('w, 'x, 'v, 'o) framework \<Rightarrow> args \<Rightarrow> (string \<rightharpoonup> 'w checkpoint) \<Rightarrow> error + ('w module \<times> 'w module)" where
  "load_models fw a fs =
     (let plfd_backbone0 = \<lparr> training = True, state_dict = PFLDInference fw \<rparr>;
          auxiliarynet0 = \<lparr> training = True, state_dict = AuxiliaryNet fw \<rparr>
      in if resume a \<noteq> [] then
           (case fs (resume a) of
              None \<Rightarrow> Inl (FileNotFoundError (resume a))
            | Some checkpoint \<Rightarrow>
                bind_err (checkpoint_weights checkpoint ''plfd_backbone'') (\<lambda>w1.
                bind_err (checkpoint_weights checkpoint ''auxiliarynet'') (\<lambda>w2.
                  Inr (plfd_backbone0\<lparr>state_dict := w1\<rparr>, auxiliarynet0\<lparr>state_dict := w2\<rparr>))))
         else Inr (plfd_backbone0, auxiliarynet0))"

text \<open>The state in which the epoch loop starts (lines 136 to 171): the optimizer and its
  scheduler are built from the arguments; gradient tracking is enabled.\<close>

definition initial_state ::
  "('w, 'x, 'v, 'o) framework \<Rightarrow> args \<Rightarrow> (string \<rightharpoonup> 'w checkpoint) \<Rightarrow> 'w module \<times> 'w module \<Rightarrow> ('w, 'v, 'o) state" where
  "initial_state fw a fs nets =
     \<lparr> plfd_backbone = fst nets, auxiliarynet = snd nets,
       optimizer = Adam fw (base_lr a) (weight_decay a) (lr_patience a),
       grad_enabled = True, environ = Map.empty, files = fs, events = [] \<rparr>"

definition batchsize :: "int list \<Rightarrow> int \<Rightarrow> int" where
  "batchsize GPUs n = (if length GPUs = 0 then n else n * int (length GPUs))"

text \<open>
  \<^verbatim>\<open>main\<close> (lines 114 to 189): the device list, the networks, the optimizer with its
  scheduler, the two loaders, the epoch loop over \<^verbatim>\<open>range(args.start_epoch,
  args.end_epoch + 1)\<close>, and \<^verbatim>\<open>writer.close()\<close>. The text log (\<^verbatim>\<open>logging\<close>,
  \<^verbatim>\<open>print_args\<close>) and the construction of the summary writer are not modelled; calls
  into the framework are taken to return.
\<close>

definition main ::
  "('w, 'x, 'v, 'o) framework \<Rightarrow> args \<Rightarrow> (string \<rightharpoonup> 'w checkpoint) \<Rightarrow> error + ('w, 'v, 'o) state" where
  "main fw a fs =
     bind_err (int_list (str_split (CHR '','') (devices_id a))) (\<lambda>GPUs.
     bind_err (load_models fw a fs) (\<lambda>nets.
       let s = initial_state fw a fs nets;
           dataloader = DataLoader_train fw (dataroot a) (batchsize GPUs (train_batchsize a));
           wlfw_val_dataloader = DataLoader_val fw (val_dataroot a) (batchsize GPUs (val_batchsize a))
       in bind_err (epoch_loop fw a GPUs dataloader wlfw_val_dataloader [start_epoch a .. end_epoch a] s)
            (\<lambda>s'. Inr (emit [Writer_close] s'))))"

text \<open>\<^verbatim>\<open>args = parse_args(); main(args)\<close>\<close>

definition program ::
  "('w, 'x, 'v, 'o) framework \<Rightarrow> (string \<Rightarrow> real option) \<Rightarrow> (string \<times> string) list
     \<Rightarrow> (string \<rightharpoonup> 'w checkpoint) \<Rightarrow> error + ('w, 'v, 'o) state" where
  "program fw py_float argv fs = bind_err (parse_args py_float argv) (\<lambda>a. main fw a fs)"

section \<open>Observations on the trace of a run\<close>

text \<open>The steps of an epoch iteration, as the trace shows them: the forward calls and
  optimizer updates inside a pass are not steps of their own.\<close>

datatype step =
    Training_pass int
  | Checkpoint_write int string
  | Validation_pass int
  | LR_scheduler_step
  | Scalar_logging int

fun step_of :: "'v event \<Rightarrow> step list" where
  "step_of (Call_train e) = [Training_pass e]"
| "step_of (Save_checkpoint e f) = [Checkpoint_write e f]"
| "step_of (Call_validate e) = [Validation_pass e]"
| "step_of (Scheduler_step v) = [LR_scheduler_step]"
| "step_of (Add_scalar tag v e) = [Scalar_logging e]"
| "step_of (Add_scalars tag v w e) = [Scalar_logging e]"
| "step_of ev = []"

definition steps :: "'v event list \<Rightarrow> step list" where
  "steps evs = concat (map step_of evs)"

text \<open>The steps of one complete epoch iteration.\<close>

definition epoch_steps :: "string \<Rightarrow> int \<Rightarrow> step list" where
  "epoch_steps snapshot_dir e =
     [Training_pass e, Checkpoint_write e (checkpoint_filename snapshot_dir e),
      Validation_pass e, LR_scheduler_step, Scalar_logging e, Scalar_logging e]"

text \<open>The mode discipline, checked on a trace: inside a training pass every forward call
  runs a module in training mode, inside a validation pass every forward call runs a
  module in evaluation mode. A pass lasts from its call to the next step.\<close>

datatype phase = Outside | In_training | In_validation

fun mode_allowed :: "phase \<Rightarrow> bool \<Rightarrow> bool" where
  "mode_allowed In_training is_training = is_training"
| "mode_allowed In_validation is_training = (\<not> is_training)"
| "mode_allowed Outside is_training = True"

fun modes_respected :: "phase \<Rightarrow> 'v event list \<Rightarrow> bool" where
  "modes_respected ph [] = True"
| "modes_respected ph (Call_train e # evs) = modes_respected In_training evs"
| "modes_respected ph (Call_validate e # evs) = modes_respected In_validation evs"
| "modes_respected ph (Forward_backbone m g # evs) = (mode_allowed ph m \<and> modes_respected ph evs)"
| "modes_respected ph (Forward_auxiliary m g # evs) = (mode_allowed ph m \<and> modes_respected ph evs)"
| "modes_respected ph (Optimizer_step # evs) = modes_respected ph evs"
| "modes_respected ph (ev # evs) = modes_respected Outside evs"

text \<open>The events of one batch of a training pass, and of one complete epoch iteration
  that starts in state \<open>s\<close>, where \<open>r\<close> is the pair that \<open>train\<close> returns and \<open>v\<close> the
  validation loss.\<close>

definition batch_events :: "('w, 'v, 'o) state \<Rightarrow> 'v event list" where
  "batch_events s =
     [Forward_backbone (training (plfd_backbone s)) (grad_enabled s),
      Forward_auxiliary (training (auxiliarynet s)) (grad_enabled s), Optimizer_step]"

definition epoch_events ::
  "('w, 'x, 'v, 'o) framework \<Rightarrow> args \<Rightarrow> 'x batch list \<Rightarrow> 'x batch list \<Rightarrow> int
     \<Rightarrow> ('w, 'v, 'o) state \<Rightarrow> 'v \<times> 'v \<Rightarrow> fl \<Rightarrow> 'v event list" where
  "epoch_events fw a train_loader val_loader e s r v =
     Call_train e # concat (replicate (length train_loader) (batch_events s)) @
     [Save_checkpoint e (checkpoint_filename (snapshot a) e), Call_validate e] @
     replicate (length val_loader) (Forward_backbone False False) @
     [Scheduler_step v, Add_scalar ''data/weighted_loss'' (fst r) e,
      Add_scalars ''data/loss'' v (snd r) e]"

text \<open>Counters and projections of a trace: the file names given to \<^verbatim>\<open>torch.save\<close>, the
  checkpoint writes of one epoch, the training passes, the optimizer updates.\<close>

definition saved_files :: "'v event list \<Rightarrow> string list" where
  "saved_files evs = concat (map (\<lambda>ev. case ev of Save_checkpoint e f \<Rightarrow> [f] | _ \<Rightarrow> []) evs)"

definition checkpoint_writes :: "int \<Rightarrow> step list \<Rightarrow> nat" where
  "checkpoint_writes e sts =
     length (filter (\<lambda>st. case st of Checkpoint_write e' f \<Rightarrow> e' = e | _ \<Rightarrow> False) sts)"

definition training_passes :: "step list \<Rightarrow> nat" where
  "training_passes sts = length (filter (\<lambda>st. case st of Training_pass e \<Rightarrow> True | _ \<Rightarrow> False) sts)"

definition optimizer_steps :: "'v event list \<Rightarrow> nat" where
  "optimizer_steps evs =
     length (filter (\<lambda>ev. case ev of Optimizer_step \<Rightarrow> True | _ \<Rightarrow> False) evs)"

text \<open>The pairs \<open>(weighted_loss, loss)\<close> of a training pass, batch by batch: what
  \<open>PFLDLoss\<close> returns for the ground truth of the batch and the outputs of the two
  networks, in their current modes and with the weights that the loop has reached.\<close>

definition loss_pair ::
  "('w, 'x, 'v, 'o) framework \<Rightarrow> args \<Rightarrow> 'x batch \<Rightarrow> ('w, 'v, 'o) state \<Rightarrow> 'v \<times> 'v" where
  "loss_pair fw a b s =
     PFLDLoss fw (attribute_gt b) (landmark_gt b) (euler_angle_gt b)
       (auxiliary_forward fw (training (auxiliarynet s)) (state_dict (auxiliarynet s))
          (fst (backbone_forward fw (training (plfd_backbone s)) (state_dict (plfd_backbone s)) (img b))))
       (snd (backbone_forward fw (training (plfd_backbone s)) (state_dict (plfd_backbone s)) (img b)))
       (train_batchsize a)"

fun criterion_values ::
  "('w, 'x, 'v, 'o) framework \<Rightarrow> args \<Rightarrow> 'x batch list \<Rightarrow> ('w, 'v, 'o) train_vars \<Rightarrow> ('v \<times> 'v) list" where
  "criterion_values fw a [] vars = []"
| "criterion_values fw a (b # bs) vars =
     loss_pair fw a b (snd (snd vars)) # criterion_values fw a bs (train_batch fw a b vars)"

text \<open>No step of a run raises when the device list parses, the checkpoint to resume from
  (if any) loads, and in every epoch of the range the training loader yields at least one
  batch and the checkpoint file can be written. With no batch, \<open>train\<close> raises at its
  \<^verbatim>\<open>return\<close>.\<close>

definition run_preconditions ::
  "('w, 'x, 'v, 'o) framework \<Rightarrow> args \<Rightarrow> (string \<rightharpoonup> 'w checkpoint) \<Rightarrow> bool" where
  "run_preconditions fw a fs =
     (case int_list (str_split (CHR '','') (devices_id a)) of
        Inl err \<Rightarrow> False
      | Inr GPUs \<Rightarrow>
          (case load_models fw a fs of
             Inl err \<Rightarrow> False
           | Inr nets \<Rightarrow>
               list_all (\<lambda>e. DataLoader_train fw (dataroot a) (batchsize GPUs (train_batchsize a)) e \<noteq> [] \<and>
                             writable fw (checkpoint_filename (snapshot a) e))
                 [start_epoch a .. end_epoch a]))"


section \<open>The validation loss, as the specification words it\<close>

text \<open>The landmarks that the backbone predicts for a batch in evaluation mode, as plain
  data, and the losses of the batches of a loader.\<close>

definition predict :: "('w, 'x, 'v, 'o) framework \<Rightarrow> 'w \<Rightarrow> 'x batch \<Rightarrow> tensor" where
  "predict fw w b = tensor_data fw (snd (backbone_forward fw False w (img b)))"

definition validation_losses :: "('w, 'x, 'v, 'o) framework \<Rightarrow> 'w \<Rightarrow> 'x batch list \<Rightarrow> fl list" where
  "validation_losses fw w bs = map (\<lambda>b. batch_loss (landmark_gt b) (predict fw w b)) bs"

text \<open>Two tensors have the same shape when they have as many rows and their rows have
  the same lengths, one by one.\<close>

definition same_shape :: "tensor \<Rightarrow> tensor \<Rightarrow> bool" where
  "same_shape a b = list_all2 (\<lambda>r q. length r = length q) a b"

text \<open>The specification's words: for a batch, the mean over the batch of the sum over the
  coordinates of the squared landmark error; for the validation set, the arithmetic mean
  of the per-batch errors.\<close>

definition mean_squared_landmark_error :: "tensor \<Rightarrow> tensor \<Rightarrow> real" where
  "mean_squared_landmark_error gt p =
     (\<Sum>i<length gt. \<Sum>j<length (gt ! i). (gt ! i ! j - p ! i ! j) ^ 2) / real (length gt)"

definition arithmetic_mean :: "real list \<Rightarrow> real" where
  "arithmetic_mean xs = (\<Sum>k<length xs. xs ! k) / real (length xs)"

section \<open>A small concrete instance\<close>

text \<open>A framework over natural numbers as weights and images, with two training batches
  and two validation batches, on which the definitions can be evaluated.\<close>

definition example_framework :: "(nat, nat, tensor, nat) framework" where
  "example_framework =
     \<lparr> PFLDInference = 0, AuxiliaryNet = 0,
       backbone_forward = (\<lambda>m w x. ([[real x]], [[real w, real x], [real x, real w]])),
       backbone_buffers = (\<lambda>w x. w + 1),
       auxiliary_forward = (\<lambda>m w f. f),
       auxiliary_buffers = (\<lambda>w f. w + 1),
       PFLDLoss = (\<lambda>ag lg eg angle landmarks n. (landmarks, angle)),
       tensor_data = (\<lambda>v. v),
       item = (\<lambda>v. sum_list (map sum_list v)),
       Adam = (\<lambda>lr wd p. 0),
       optimizer_step = (\<lambda>opt wl ws. (opt + 1, fst ws + 10, snd ws + 10)),
       ReduceLROnPlateau_step = (\<lambda>opt v. opt),
       DataLoader_train = (\<lambda>root n e.
         [\<lparr>img = 1, landmark_gt = [[1, 2], [0, 1]], attribute_gt = [], euler_angle_gt = []\<rparr>,
          \<lparr>img = 3, landmark_gt = [[2, 2], [1, 1]], attribute_gt = [], euler_angle_gt = []\<rparr>]),
       DataLoader_val = (\<lambda>root n.
         [\<lparr>img = 2, landmark_gt = [[3, 4], [1, 0]], attribute_gt = [], euler_angle_gt = []\<rparr>,
          \<lparr>img = 1, landmark_gt = [[1, 1], [0, 2]], attribute_gt = [], euler_angle_gt = []\<rparr>]),
       writable = (\<lambda>filename. True) \<rparr>"

text \<open>The same framework with a snapshot directory that cannot be written to, and with a
  training loader that yields no batch.\<close>

definition read_only_framework :: "(nat, nat, tensor, nat) framework" where
  "read_only_framework = example_framework\<lparr>writable := (\<lambda>filename. False)\<rparr>"

definition no_batches_framework :: "(nat, nat, tensor, nat) framework" where
  "no_batches_framework = example_framework\<lparr>DataLoader_train := (\<lambda>root n e. [])\<rparr>"

definition example_state :: "(nat, tensor, nat) state" where
  "example_state =
     initial_state example_framework default_args Map.empty
       (\<lparr>training = True, state_dict = 0\<rparr>, \<lparr>training = True, state_dict = 0\<rparr>)"

definition example_args :: args where
  "example_args = default_args\<lparr>end_epoch := 2\<rparr>"




section \<open>Properties of the boolean argument parser\<close>

lemma str_lower_examples:
  "str_lower ''YES'' = ''yes''" "str_lower ''False'' = ''false''" "str_lower ''maybe'' = ''maybe''"
  by code_simp+

text \<open>
  Claim C3. For every string \<open>v\<close>, \<open>str2bool\<close> returns \<open>True\<close> exactly when \<open>v\<close> lower-cased is
  one of yes, true, t, y, 1; it returns \<open>False\<close> exactly when \<open>v\<close> lower-cased is one of no,
  false, f, n, 0; and it raises the argument-type error exactly for every other string.
\<close>

theorem str2bool_spec:
  "(str2bool v = Inr True \<longleftrightarrow> str_lower v \<in> {''yes'', ''true'', ''t'', ''y'', ''1''}) \<and>
   (str2bool v = Inr False \<longleftrightarrow> str_lower v \<in> {''no'', ''false'', ''f'', ''n'', ''0''}) \<and>
   (str2bool v = Inl (ArgumentTypeError ''Boolean value expected'') \<longleftrightarrow>
      str_lower v \<notin> {''yes'', ''true'', ''t'', ''y'', ''1'', ''no'', ''false'', ''f'', ''n'', ''0''})"
  by (simp add: str2bool_def)

theorem str2bool_spec_witness:
  "str2bool ''YES'' = Inr True \<and> str2bool ''False'' = Inr False \<and>
   str2bool ''maybe'' = Inl (ArgumentTypeError ''Boolean value expected'')"
  using str2bool_spec [of "''YES''"] str2bool_spec [of "''False''"] str2bool_spec [of "''maybe''"]
  by (simp add: str_lower_examples)

section \<open>Helper facts: the training pass\<close>

lemma bind_err_simps [simp]:
  "bind_err (Inl e) f = Inl e" "bind_err (Inr x) f = f x"
  by (simp_all add: bind_err_def)

lemma emit_fields [simp]:
  "events (emit evs s) = events s @ evs"
  "plfd_backbone (emit evs s) = plfd_backbone s"
  "auxiliarynet (emit evs s) = auxiliarynet s"
  "optimizer (emit evs s) = optimizer s"
  "grad_enabled (emit evs s) = grad_enabled s"
  "environ (emit evs s) = environ s"
  "files (emit evs s) = files s"
  by (simp_all add: emit_def)

lemma forward_update_training [simp]: "training (forward_update upd m) = training m"
  by (simp add: forward_update_def)

lemma forward_update_eval [simp]: "\<not> training m \<Longrightarrow> forward_update upd m = m"
  by (simp add: forward_update_def)

lemma train_batch_meter:
  "fst (train_batch fw a b vars) =
     meter_update (fst vars) (item fw (snd (criterion fw a b (snd (snd vars)))))"
  by (simp add: train_batch_def Let_def)

lemma train_batch_result:
  "fst (snd (train_batch fw a b vars)) = Some (criterion fw a b (snd (snd vars)))"
  by (simp add: train_batch_def Let_def)

lemma train_batch_events:
  "events (snd (snd (train_batch fw a b vars))) =
     events (snd (snd vars)) @
       [Forward_backbone (training (plfd_backbone (snd (snd vars)))) (grad_enabled (snd (snd vars))),
        Forward_auxiliary (training (auxiliarynet (snd (snd vars)))) (grad_enabled (snd (snd vars))),
        Optimizer_step]"
  by (simp add: train_batch_def Let_def)

lemma train_batch_frame:
  "training (plfd_backbone (snd (snd (train_batch fw a b vars)))) = training (plfd_backbone (snd (snd vars)))"
  "training (auxiliarynet (snd (snd (train_batch fw a b vars)))) = training (auxiliarynet (snd (snd vars)))"
  "grad_enabled (snd (snd (train_batch fw a b vars))) = grad_enabled (snd (snd vars))"
  "files (snd (snd (train_batch fw a b vars))) = files (snd (snd vars))"
  "environ (snd (snd (train_batch fw a b vars))) = environ (snd (snd vars))"
  by (simp_all add: train_batch_def Let_def)

lemma train_loop_frame:
  "training (plfd_backbone (snd (snd (train_loop fw a bs vars)))) = training (plfd_backbone (snd (snd vars)))"
  "training (auxiliarynet (snd (snd (train_loop fw a bs vars)))) = training (auxiliarynet (snd (snd vars)))"
  "grad_enabled (snd (snd (train_loop fw a bs vars))) = grad_enabled (snd (snd vars))"
  "files (snd (snd (train_loop fw a bs vars))) = files (snd (snd vars))"
  "environ (snd (snd (train_loop fw a bs vars))) = environ (snd (snd vars))"
  by (induction bs arbitrary: vars; simp add: train_batch_frame)+

lemma train_loop_events:
  "events (snd (snd (train_loop fw a bs vars))) =
     events (snd (snd vars)) @ concat (replicate (length bs) (batch_events (snd (snd vars))))"
  by (induction bs arbitrary: vars)
     (simp_all add: train_batch_events train_batch_frame batch_events_def)

lemma train_loop_snoc:
  "train_loop fw a (bs @ [b]) vars = train_batch fw a b (train_loop fw a bs vars)"
  by (induction bs arbitrary: vars) simp_all

lemma train_loop_result:
  "bs \<noteq> [] \<Longrightarrow> fst (snd (train_loop fw a bs vars)) =
     Some (criterion fw a (last bs) (snd (snd (train_loop fw a (butlast bs) vars))))"
  by (cases bs rule: rev_cases) (simp_all add: train_loop_snoc train_batch_result)

lemma train_loop_empty: "train_loop fw a [] vars = vars"
  by simp

lemma train_begin_fields:
  "events (snd (snd (train_begin GPUs e s))) = events s @ [Call_train e]"
  "plfd_backbone (snd (snd (train_begin GPUs e s))) = plfd_backbone s"
  "auxiliarynet (snd (snd (train_begin GPUs e s))) = auxiliarynet s"
  "grad_enabled (snd (snd (train_begin GPUs e s))) = grad_enabled s"
  "files (snd (snd (train_begin GPUs e s))) = files s"
  "fst (train_begin GPUs e s) = AverageMeter_new"
  "fst (snd (train_begin GPUs e s)) = None"
  by (simp_all add: train_begin_def Let_def)

lemma train_empty: "train fw a [] GPUs e s = Inl UnboundLocalError"
  by (simp add: train_def train_begin_fields)

lemma train_returns:
  assumes "bs \<noteq> []"
  shows "train fw a bs GPUs e s =
           Inr (criterion fw a (last bs) (snd (snd (train_loop fw a (butlast bs) (train_begin GPUs e s)))),
                snd (snd (train_loop fw a bs (train_begin GPUs e s))))"
  using assms by (simp add: train_def Let_def train_loop_result)

lemma train_state:
  assumes "train fw a bs GPUs e s = Inr (r, s')"
  shows "training (plfd_backbone s') = training (plfd_backbone s)"
    and "training (auxiliarynet s') = training (auxiliarynet s)"
    and "grad_enabled s' = grad_enabled s"
    and "files s' = files s"
    and "events s' = events s @ Call_train e # concat (replicate (length bs) (batch_events s))"
proof -
  have s': "s' = snd (snd (train_loop fw a bs (train_begin GPUs e s)))"
    using assms by (simp add: train_def Let_def split: option.splits)
  show "training (plfd_backbone s') = training (plfd_backbone s)"
    and "training (auxiliarynet s') = training (auxiliarynet s)"
    and "grad_enabled s' = grad_enabled s"
    and "files s' = files s"
    by (simp_all add: s' train_loop_frame train_begin_fields)
  show "events s' = events s @ Call_train e # concat (replicate (length bs) (batch_events s))"
    by (simp add: s' train_loop_events train_begin_fields batch_events_def)
qed

section \<open>Helper facts: the validation pass\<close>

text \<open>In evaluation mode a forward call changes nothing, so the whole pass has a closed form.\<close>

lemma validate_batch_eval:
  assumes "\<not> training (plfd_backbone s)"
  shows "validate_batch fw b (ls, s) =
           (ls @ [batch_loss (landmark_gt b) (predict fw (state_dict (plfd_backbone s)) b)],
            emit [Forward_backbone False (grad_enabled s)] s)"
  using assms by (simp add: validate_batch_def Let_def predict_def)

lemma validate_loop_eval:
  assumes "\<not> training (plfd_backbone s)"
  shows "validate_loop fw bs (ls, s) =
           (ls @ map (\<lambda>b. batch_loss (landmark_gt b) (predict fw (state_dict (plfd_backbone s)) b)) bs,
            emit (replicate (length bs) (Forward_backbone False (grad_enabled s))) s)"
  using assms
proof (induction bs arbitrary: ls s)
  case Nil
  then show ?case by (simp add: emit_def)
next
  case (Cons b bs)
  have "\<not> training (plfd_backbone (emit [Forward_backbone False (grad_enabled s)] s))"
    using Cons.prems by simp
  from Cons.IH [OF this] Cons.prems show ?case
    by (simp add: validate_batch_eval emit_def)
qed

lemma validate_eq:
  "validate fw bs e s =
     (np_mean (validation_losses fw (state_dict (plfd_backbone s)) bs),
      s\<lparr> plfd_backbone := (plfd_backbone s)\<lparr>training := False\<rparr>,
         auxiliarynet := (auxiliarynet s)\<lparr>training := False\<rparr>,
         events := events s @ Call_validate e # replicate (length bs) (Forward_backbone False False) \<rparr>)"
  by (simp add: validate_def Let_def validate_loop_eval validation_losses_def emit_def)

section \<open>Helper facts: one epoch and the epoch loop\<close>

lemma steps_append [simp]: "steps (xs @ ys) = steps xs @ steps ys"
  by (simp add: steps_def)

lemma steps_Nil [simp]: "steps [] = []"
  by (simp add: steps_def)

lemma steps_Cons [simp]: "steps (ev # evs) = step_of ev @ steps evs"
  by (simp add: steps_def)

lemma steps_batches [simp]: "steps (concat (replicate n (batch_events s))) = []"
  by (induction n) (simp_all add: batch_events_def)

lemma steps_forwards [simp]: "steps (replicate n (Forward_backbone m g)) = []"
  by (induction n) simp_all

lemma epoch_body_empty:
  "dl e = [] \<Longrightarrow> epoch_body fw a GPUs dl vl e s = Inl UnboundLocalError"
  by (simp add: epoch_body_def train_empty)

lemma epoch_body_unwritable:
  assumes "dl e \<noteq> []" and "\<not> writable fw (checkpoint_filename (snapshot a) e)"
  shows "epoch_body fw a GPUs dl vl e s = Inl (SaveError (checkpoint_filename (snapshot a) e))"
proof -
  obtain r s1 where tr: "train fw a (dl e) GPUs e s = Inr (r, s1)"
    using train_returns [OF assms(1)] by blast
  show ?thesis
    using assms(2) by (simp add: epoch_body_def tr Let_def save_checkpoint_def)
qed

lemma epoch_body_returns:
  assumes "epoch_body fw a GPUs dl vl e s = Inr s'"
  shows "dl e \<noteq> [] \<and> writable fw (checkpoint_filename (snapshot a) e)"
  using assms epoch_body_empty [of dl e fw a GPUs vl s]
    epoch_body_unwritable [of dl e fw a GPUs vl s]
  by auto

lemma epoch_body_run:
  assumes "dl e \<noteq> []" and "writable fw (checkpoint_filename (snapshot a) e)"
  shows "\<exists>s' r s1.
           epoch_body fw a GPUs dl vl e s = Inr s' \<and>
           train fw a (dl e) GPUs e s = Inr (r, s1) \<and>
           events s' = events s @ epoch_events fw a (dl e) vl e s r (fst (validate fw vl e s1)) \<and>
           \<not> training (plfd_backbone s') \<and> \<not> training (auxiliarynet s') \<and>
           state_dict (plfd_backbone s') = state_dict (plfd_backbone s1) \<and>
           state_dict (auxiliarynet s') = state_dict (auxiliarynet s1) \<and>
           optimizer s' = ReduceLROnPlateau_step fw (optimizer s1) (fst (validate fw vl e s1)) \<and>
           grad_enabled s' = grad_enabled s \<and>
           files s' = (files s)(checkpoint_filename (snapshot a) e \<mapsto> checkpoint_record e s1)"
proof -
  obtain r s1 where tr: "train fw a (dl e) GPUs e s = Inr (r, s1)"
    using train_returns [OF assms(1)] by blast
  note st = train_state [OF tr]
  show ?thesis
    using assms(2)
    by (simp add: epoch_body_def tr Let_def validate_eq save_checkpoint_def st epoch_events_def)
qed

lemma steps_epoch_events [simp]:
  "steps (epoch_events fw a trl vl e s r v) = epoch_steps (snapshot a) e"
  by (simp add: epoch_events_def epoch_steps_def)

lemma epoch_loop_run:
  assumes "\<forall>e \<in> set es. dl e \<noteq> [] \<and> writable fw (checkpoint_filename (snapshot a) e)"
  shows "\<exists>s'. epoch_loop fw a GPUs dl vl es s = Inr s' \<and>
           steps (events s') = steps (events s) @ concat (map (epoch_steps (snapshot a)) es) \<and>
           grad_enabled s' = grad_enabled s"
  using assms
proof (induction es arbitrary: s)
  case Nil
  then show ?case by simp
next
  case (Cons e es)
  then have ne: "dl e \<noteq> []" and wr: "writable fw (checkpoint_filename (snapshot a) e)"
    by simp_all
  from epoch_body_run [where dl = dl and e = e and fw = fw and a = a and GPUs = GPUs and vl = vl and s = s] ne wr
  obtain s1 r s0 where b: "epoch_body fw a GPUs dl vl e s = Inr s1"
    and ev: "events s1 = events s @ epoch_events fw a (dl e) vl e s r (fst (validate fw vl e s0))"
    and g: "grad_enabled s1 = grad_enabled s"
    by blast
  from Cons.IH [of s1] Cons.prems
  obtain s' where l: "epoch_loop fw a GPUs dl vl es s1 = Inr s'"
    and st: "steps (events s') = steps (events s1) @ concat (map (epoch_steps (snapshot a)) es)"
    and g': "grad_enabled s' = grad_enabled s1"
    by auto
  show ?case
    by (simp add: b l st ev g g')
qed

section \<open>The validation loss\<close>

lemma sum_list_lessThan: "sum_list xs = (\<Sum>i<length xs. xs ! i)"
  for xs :: "real list"
  by (simp add: sum_list_sum_nth atLeast0LessThan)

lemma row_error:
  fixes r q :: "real list"
  assumes "length r = length q"
  shows "sum_list (map (\<lambda>x. x ^ 2) (map2 (\<lambda>x y. x - y) r q)) = (\<Sum>j<length r. (r ! j - q ! j) ^ 2)"
proof -
  let ?l = "map (\<lambda>x. x ^ 2) (map2 (\<lambda>x y. x - y) r q)"
  have "sum_list ?l = (\<Sum>j<length ?l. ?l ! j)"
    by (rule sum_list_lessThan)
  also have "\<dots> = (\<Sum>j<length r. (r ! j - q ! j) ^ 2)"
    using assms by (intro sum.cong) simp_all
  finally show ?thesis .
qed

lemma batch_loss_mean:
  assumes "gt \<noteq> []" and "same_shape gt p"
  shows "batch_loss gt p = Num (mean_squared_landmark_error gt p)"
proof -
  have len: "length p = length gt"
    using assms(2) by (simp add: same_shape_def list_all2_lengthD)
  have rows: "\<And>i. i < length gt \<Longrightarrow> length (gt ! i) = length (p ! i)"
    using assms(2) by (simp add: same_shape_def list_all2_conv_all_nth)
  have "sum_list (torch_sum_axis1 (tensor_pow2 (tensor_sub gt p))) =
          (\<Sum>i<length gt. \<Sum>j<length (gt ! i). (gt ! i ! j - p ! i ! j) ^ 2)"
    unfolding sum_list_lessThan
    by (rule sum.cong)
       (simp_all add: torch_sum_axis1_def tensor_pow2_def tensor_sub_def len rows row_error del: map_map)
  moreover have "torch_sum_axis1 (tensor_pow2 (tensor_sub gt p)) \<noteq> []"
    using assms(1) len by (auto simp add: torch_sum_axis1_def tensor_pow2_def tensor_sub_def)
  moreover have "length (torch_sum_axis1 (tensor_pow2 (tensor_sub gt p))) = length gt"
    by (simp add: torch_sum_axis1_def tensor_pow2_def tensor_sub_def len)
  ultimately show ?thesis
    by (simp add: batch_loss_def torch_mean_def mean_squared_landmark_error_def)
qed

lemma np_mean_numbers:
  assumes "xs \<noteq> []"
  shows "np_mean (map Num xs) = Num (arithmetic_mean xs)"
proof -
  have "map num_of (map Num xs) = xs"
    by (induction xs) simp_all
  moreover have "NaN \<notin> set (map Num xs)"
    by auto
  ultimately show ?thesis
    using assms by (simp add: np_mean_def arithmetic_mean_def sum_list_lessThan del: map_map)
qed

text \<open>
  Claim C2. For a validation set with at least one batch, where every batch has at least
  one row and the predicted landmarks have the shape of the ground truth, \<open>validate\<close>
  returns the arithmetic mean, over the batches, of the per-batch error: the mean over the
  batch of the sum over the coordinates of the squared landmark error. It goes through the
  set once: every batch gets one forward call of the backbone, in evaluation mode and with
  gradient tracking disabled. (On a set without batches the result is \<^verbatim>\<open>nan\<close>.)
\<close>

theorem validate_spec:
  assumes "wlfw_val_dataloader \<noteq> []"
    and "\<forall>b \<in> set wlfw_val_dataloader.
           landmark_gt b \<noteq> [] \<and> same_shape (landmark_gt b) (predict fw (state_dict (plfd_backbone s)) b)"
  shows "fst (validate fw wlfw_val_dataloader epoch s) =
           Num (arithmetic_mean
                  (map (\<lambda>b. mean_squared_landmark_error (landmark_gt b)
                              (predict fw (state_dict (plfd_backbone s)) b))
                     wlfw_val_dataloader)) \<and>
         events (snd (validate fw wlfw_val_dataloader epoch s)) =
           events s @ Call_validate epoch #
             replicate (length wlfw_val_dataloader) (Forward_backbone False False)"
proof -
  let ?w = "state_dict (plfd_backbone s)"
  have "validation_losses fw ?w wlfw_val_dataloader =
          map Num (map (\<lambda>b. mean_squared_landmark_error (landmark_gt b) (predict fw ?w b))
                     wlfw_val_dataloader)"
    using assms(2) by (simp add: validation_losses_def batch_loss_mean)
  then show ?thesis
    using assms(1) by (simp add: validate_eq np_mean_numbers del: map_map)
qed

theorem validate_spec_witness:
  "fst (validate example_framework (DataLoader_val example_framework ''val'' 8) 1 example_state) = Num 5 \<and>
   events (snd (validate example_framework (DataLoader_val example_framework ''val'' 8) 1 example_state)) =
     [Call_validate 1, Forward_backbone False False, Forward_backbone False False]"
proof -
  have ne: "DataLoader_val example_framework ''val'' 8 \<noteq> []"
    by (simp add: example_framework_def)
  have sh: "\<forall>b \<in> set (DataLoader_val example_framework ''val'' 8).
              landmark_gt b \<noteq> [] \<and>
              same_shape (landmark_gt b) (predict example_framework (state_dict (plfd_backbone example_state)) b)"
    by (simp add: example_framework_def example_state_def initial_state_def predict_def same_shape_def)
  show ?thesis
    using validate_spec [OF ne sh, of 1]
    by (simp add: example_framework_def example_state_def initial_state_def predict_def
        arithmetic_mean_def mean_squared_landmark_error_def lessThan_Suc numeral_2_eq_2)
qed

section \<open>Validation changes no parameter; the checkpoint file name\<close>

text \<open>
  Claim C7. A call of \<open>validate\<close> leaves the state dictionaries of the backbone and of the
  auxiliary network, and the optimizer, as they were. Validating a second time right after
  gives the same loss, and so do two calls in any two states whose backbone weights agree,
  on the same validation set.
\<close>

theorem validate_frame:
  "state_dict (plfd_backbone (snd (validate fw vl e s))) = state_dict (plfd_backbone s) \<and>
   state_dict (auxiliarynet (snd (validate fw vl e s))) = state_dict (auxiliarynet s) \<and>
   optimizer (snd (validate fw vl e s)) = optimizer s \<and>
   fst (validate fw vl e' (snd (validate fw vl e s))) = fst (validate fw vl e s) \<and>
   (state_dict (plfd_backbone t) = state_dict (plfd_backbone s) \<longrightarrow>
      fst (validate fw vl e' t) = fst (validate fw vl e s))"
  by (simp add: validate_eq)

theorem validate_frame_witness:
  "state_dict (plfd_backbone (snd (validate example_framework (DataLoader_val example_framework ''val'' 8) 1 example_state))) = 0 \<and>
   fst (validate example_framework (DataLoader_val example_framework ''val'' 8) 2
          (example_state\<lparr>grad_enabled := False, events := [Writer_close]\<rparr>)) =
   fst (validate example_framework (DataLoader_val example_framework ''val'' 8) 1 example_state)"
  using validate_frame [of example_framework "DataLoader_val example_framework ''val'' 8" 1 example_state 2
      "example_state\<lparr>grad_enabled := False, events := [Writer_close]\<rparr>"]
  by (simp add: example_state_def initial_state_def)

lemma saved_files_append [simp]: "saved_files (xs @ ys) = saved_files xs @ saved_files ys"
  by (simp add: saved_files_def)

lemma saved_files_Nil [simp]: "saved_files [] = []"
  by (simp add: saved_files_def)

lemma saved_files_Cons [simp]:
  "saved_files (ev # evs) = (case ev of Save_checkpoint e f \<Rightarrow> [f] | _ \<Rightarrow> []) @ saved_files evs"
  by (simp add: saved_files_def)

lemma saved_files_batches [simp]: "saved_files (concat (replicate n (batch_events s))) = []"
  by (induction n) (simp_all add: batch_events_def)

lemma saved_files_forwards [simp]: "saved_files (replicate n (Forward_backbone m g)) = []"
  by (induction n) simp_all

lemma saved_files_epoch_events [simp]:
  "saved_files (epoch_events fw a trl vl e s r v) = [checkpoint_filename (snapshot a) e]"
  by (simp add: epoch_events_def)

text \<open>The decimal numeral of an integer is read back by \<open>py_int\<close>.\<close>

lemma digit_char_code: "d < 10 \<Longrightarrow> (of_char (digit_char d) :: nat) = 48 + d"
  by (simp add: digit_char_def)

lemma digit_char_digit: "d < 10 \<Longrightarrow> is_digit (digit_char d)"
  by (simp add: is_digit_def digit_char_code)

lemma digit_char_val: "d < 10 \<Longrightarrow> digit_val (digit_char d) = d"
  by (simp add: digit_val_def digit_char_code)

lemma digit_char_zero: "d < 10 \<Longrightarrow> digit_char d = CHR ''0'' \<longleftrightarrow> d = 0"
proof
  assume "d < 10" and "digit_char d = CHR ''0''"
  then have "(of_char (digit_char d) :: nat) = of_char (CHR ''0'')" by simp
  with \<open>d < 10\<close> show "d = 0" by (simp add: digit_char_code)
next
  assume "d = 0" then show "digit_char d = CHR ''0''" by simp code_simp
qed

lemma is_digit_not_space: "is_digit c \<Longrightarrow> \<not> is_space c"
  by (auto simp add: is_digit_def is_space_def)

lemma is_digit_not_sign: "is_digit c \<Longrightarrow> c \<noteq> CHR ''-'' \<and> c \<noteq> CHR ''+''"
  by (auto simp add: is_digit_def)

lemma str_nat_digits: "c \<in> set (str_nat n) \<Longrightarrow> is_digit c"
proof (induction n rule: str_nat.induct)
  case (1 n)
  then show ?case
    by (subst (asm) (2) str_nat.simps) (auto simp add: digit_char_digit split: if_splits)
qed

lemma str_nat_not_Nil: "str_nat n \<noteq> []"
  by (subst str_nat.simps) simp

lemma int_digits_all:
  "\<forall>c \<in> set ds. is_digit c \<Longrightarrow> int_digits acc ds = Some (foldl (\<lambda>m c. m * 10 + digit_val c) acc ds)"
  by (induction acc ds rule: int_digits.induct) simp_all

lemma str_nat_value: "foldl (\<lambda>m c. m * 10 + digit_val c) 0 (str_nat n) = n"
proof (induction n rule: str_nat.induct)
  case (1 n)
  show ?case
  proof (cases "n < 10")
    case True
    then show ?thesis by (subst str_nat.simps) (simp add: digit_char_val)
  next
    case False
    with 1 show ?thesis by (subst str_nat.simps) (simp add: digit_char_val)
  qed
qed

lemma int_literal_str_nat: "int_literal (str_nat n) = Some n"
proof -
  obtain c cs where s: "str_nat n = c # cs"
    using str_nat_not_Nil [of n] by (cases "str_nat n") auto
  have all: "\<forall>c \<in> set (str_nat n). is_digit c"
    by (simp add: str_nat_digits)
  then have "is_digit c" using s by simp
  with int_digits_all [OF all, of 0] s str_nat_value [of n] show ?thesis
    by (simp add: int_literal_def)
qed

lemma dropWhile_none: "\<forall>c \<in> set s. \<not> P c \<Longrightarrow> dropWhile P s = s"
  by (cases s) simp_all

lemma str_strip_none: "\<forall>c \<in> set s. \<not> is_space c \<Longrightarrow> str_strip s = s"
  by (simp add: str_strip_def dropWhile_none)

lemma minus_not_space: "\<not> is_space (CHR ''-'')"
  by (simp add: is_space_def)

lemma py_int_str_int: "py_int (str_int i) = Inr i"
proof (cases "i < 0")
  case True
  have "str_strip (str_int i) = str_int i"
    using True by (intro str_strip_none) (auto simp add: str_int_def minus_not_space dest: str_nat_digits is_digit_not_space)
  with True show ?thesis
    by (simp add: py_int_def str_int_def int_literal_str_nat)
next
  case False
  obtain c cs where s: "str_nat (nat i) = c # cs"
    using str_nat_not_Nil [of "nat i"] by (cases "str_nat (nat i)") auto
  then have "is_digit c" using str_nat_digits [of c "nat i"] by simp
  then have sign: "c \<noteq> CHR ''-''" "c \<noteq> CHR ''+''" using is_digit_not_sign by blast+
  have "str_strip (str_int i) = str_int i"
    using False by (intro str_strip_none) (auto simp add: str_int_def dest: str_nat_digits is_digit_not_space)
  with False s sign int_literal_str_nat [of "nat i"] show ?thesis
    by (simp add: py_int_def str_int_def)
qed

lemma str_int_inject: "str_int i = str_int j \<longleftrightarrow> i = j"
proof
  assume "str_int i = str_int j"
  then have "py_int (str_int i) = py_int (str_int j)" by (rule arg_cong)
  then show "i = j" by (simp only: py_int_str_int sum.inject)
qed simp

lemma str_nat_leading: "hd (str_nat n) = CHR ''0'' \<longleftrightarrow> n = 0"
proof (induction n rule: str_nat.induct)
  case (1 n)
  show ?case
  proof (cases "n < 10")
    case True
    then show ?thesis by (subst str_nat.simps) (simp add: digit_char_zero)
  next
    case False
    then have "n div 10 \<noteq> 0" by simp
    with 1 False show ?thesis
      by (subst str_nat.simps) (simp add: str_nat_not_Nil)
  qed
qed

lemma str_nat_zero: "str_nat 0 = ''0''"
  by code_simp

lemma checkpoint_filename_closed:
  "checkpoint_filename d e =
     d @ (if d = [] \<or> last d = CHR ''/'' then [] else ''/'') @ ''checkpoint_epoch_'' @ str_int e @ ''.pth.tar''"
  by (simp add: checkpoint_filename_def os_path_join_def)

lemma checkpoint_filename_inject:
  "checkpoint_filename d e' = checkpoint_filename d e \<longleftrightarrow> e' = e"
  unfolding checkpoint_filename_closed same_append_eq append_same_eq str_int_inject ..

text \<open>
  Claim C8. The name of the checkpoint file of an epoch is the snapshot directory joined
  with \<^verbatim>\<open>checkpoint_epoch_\<close>, the epoch number and \<^verbatim>\<open>.pth.tar\<close>: the directory, a
  slash unless the directory is empty or ends with one, and that file name. The epoch number
  is written in decimal: \<^verbatim>\<open>int\<close> reads it back, it has digits only and no leading zero
  when the epoch is not negative, and a minus sign before the digits otherwise. So the name
  is a function of the directory and the epoch that takes different epochs to different
  names. An epoch iteration with a batch to train on writes exactly this file when the
  path can be written to, and aborts with the exception of \<^verbatim>\<open>torch.save\<close> when not,
  whatever the framework, the loaders and the state are.
\<close>

theorem checkpoint_filename_spec:
  "checkpoint_filename (snapshot a) e =
     snapshot a @ (if snapshot a = [] \<or> last (snapshot a) = CHR ''/'' then [] else ''/'') @
     ''checkpoint_epoch_'' @ str_int e @ ''.pth.tar'' \<and>
   py_int (str_int e) = Inr e \<and>
   (0 \<le> e \<longrightarrow> (\<forall>c \<in> set (str_int e). is_digit c) \<and> (hd (str_int e) = CHR ''0'' \<longleftrightarrow> e = 0)) \<and>
   (e < 0 \<longrightarrow> str_int e = CHR ''-'' # str_int (- e)) \<and>
   (checkpoint_filename (snapshot a) e' = checkpoint_filename (snapshot a) e \<longleftrightarrow> e' = e) \<and>
   (dl e \<noteq> [] \<and> writable fw (checkpoint_filename (snapshot a) e) \<longrightarrow>
      (\<exists>s'. epoch_body fw a GPUs dl vl e s = Inr s' \<and>
         saved_files (events s') =
           saved_files (events s) @
             [os_path_join (snapshot a) (''checkpoint_epoch_'' @ str_int e @ ''.pth.tar'')] \<and>
         files s' (checkpoint_filename (snapshot a) e) \<noteq> None)) \<and>
   (dl e \<noteq> [] \<and> \<not> writable fw (checkpoint_filename (snapshot a) e) \<longrightarrow>
      epoch_body fw a GPUs dl vl e s = Inl (SaveError (checkpoint_filename (snapshot a) e)))"
proof (intro conjI impI)
  show "checkpoint_filename (snapshot a) e =
     snapshot a @ (if snapshot a = [] \<or> last (snapshot a) = CHR ''/'' then [] else ''/'') @
     ''checkpoint_epoch_'' @ str_int e @ ''.pth.tar''"
    by (rule checkpoint_filename_closed)
  show "py_int (str_int e) = Inr e"
    by (rule py_int_str_int)
  show "checkpoint_filename (snapshot a) e' = checkpoint_filename (snapshot a) e \<longleftrightarrow> e' = e"
    by (rule checkpoint_filename_inject)
next
  assume "0 \<le> e"
  then show "\<forall>c \<in> set (str_int e). is_digit c"
    by (auto simp add: str_int_def dest: str_nat_digits)
next
  assume "0 \<le> e"
  then show "hd (str_int e) = CHR ''0'' \<longleftrightarrow> e = 0"
    by (simp add: str_int_def str_nat_leading)
next
  assume "e < 0"
  then show "str_int e = CHR ''-'' # str_int (- e)"
    by (simp add: str_int_def)
next
  assume h: "dl e \<noteq> [] \<and> writable fw (checkpoint_filename (snapshot a) e)"
  from epoch_body_run [where dl = dl and e = e and fw = fw and a = a and GPUs = GPUs and vl = vl and s = s] h
  obtain s' where "epoch_body fw a GPUs dl vl e s = Inr s'"
    and "saved_files (events s') = saved_files (events s) @ [checkpoint_filename (snapshot a) e]"
    and "files s' (checkpoint_filename (snapshot a) e) \<noteq> None"
    by auto
  then show "\<exists>s'. epoch_body fw a GPUs dl vl e s = Inr s' \<and>
         saved_files (events s') =
           saved_files (events s) @
             [os_path_join (snapshot a) (''checkpoint_epoch_'' @ str_int e @ ''.pth.tar'')] \<and>
         files s' (checkpoint_filename (snapshot a) e) \<noteq> None"
    by (auto simp add: checkpoint_filename_def)
next
  assume "dl e \<noteq> [] \<and> \<not> writable fw (checkpoint_filename (snapshot a) e)"
  then show "epoch_body fw a GPUs dl vl e s = Inl (SaveError (checkpoint_filename (snapshot a) e))"
    by (simp add: epoch_body_unwritable)
qed

theorem checkpoint_filename_spec_witness:
  "checkpoint_filename ''./checkpoint/snapshot/'' 12 = ''./checkpoint/snapshot/checkpoint_epoch_12.pth.tar'' \<and>
   checkpoint_filename ''snap'' (- 3) = ''snap/checkpoint_epoch_-3.pth.tar'' \<and>
   py_int (str_int 12) = Inr 12 \<and>
   (\<exists>s'. epoch_body example_framework example_args [0]
           (DataLoader_train example_framework ''train'' 128) (DataLoader_val example_framework ''val'' 8)
           12 example_state = Inr s' \<and>
     saved_files (events s') = [''./checkpoint/snapshot/checkpoint_epoch_12.pth.tar''] \<and>
     files s' ''./checkpoint/snapshot/checkpoint_epoch_12.pth.tar'' \<noteq> None) \<and>
   epoch_body (example_framework\<lparr>writable := (\<lambda>filename. False)\<rparr>) example_args [0]
     (DataLoader_train example_framework ''train'' 128) (DataLoader_val example_framework ''val'' 8)
     12 example_state = Inl (SaveError ''./checkpoint/snapshot/checkpoint_epoch_12.pth.tar'')"
proof -
  let ?dl = "DataLoader_train example_framework ''train'' 128"
  let ?vl = "DataLoader_val example_framework ''val'' 8"
  let ?fw0 = "example_framework\<lparr>writable := (\<lambda>filename. False)\<rparr>"
  have snap: "snapshot example_args = ''./checkpoint/snapshot/''"
    by (simp add: example_args_def default_args_def)
  have ne: "?dl 12 \<noteq> []"
    by (simp add: example_framework_def)
  have wr: "writable example_framework (checkpoint_filename (snapshot example_args) 12)"
    by (simp add: example_framework_def)
  have nwr: "\<not> writable ?fw0 (checkpoint_filename (snapshot example_args) 12)"
    by simp
  have name: "os_path_join (snapshot example_args) (''checkpoint_epoch_'' @ str_int 12 @ ''.pth.tar'') =
                ''./checkpoint/snapshot/checkpoint_epoch_12.pth.tar''"
    by code_simp
  have name': "checkpoint_filename (snapshot example_args) 12 =
                ''./checkpoint/snapshot/checkpoint_epoch_12.pth.tar''"
    by code_simp
  have name3: "checkpoint_filename ''snap'' (- 3) = ''snap/checkpoint_epoch_-3.pth.tar''"
    by code_simp
  have evs: "saved_files (events example_state) = []"
    by (simp add: example_state_def initial_state_def)
  note th = checkpoint_filename_spec [where dl = ?dl and e = 12
      and fw = example_framework and a = example_args and GPUs = "[0]" and vl = ?vl and s = example_state]
  note th0 = checkpoint_filename_spec [where dl = ?dl and e = 12
      and fw = ?fw0 and a = example_args and GPUs = "[0]" and vl = ?vl and s = example_state]
  from th have rt: "py_int (str_int 12) = Inr 12"
    by blast
  from th ne wr obtain s' where "epoch_body example_framework example_args [0] ?dl ?vl 12 example_state = Inr s'"
    and "saved_files (events s') = saved_files (events example_state) @
           [os_path_join (snapshot example_args) (''checkpoint_epoch_'' @ str_int 12 @ ''.pth.tar'')]"
    and "files s' (checkpoint_filename (snapshot example_args) 12) \<noteq> None"
    by blast
  then have ex: "\<exists>s'. epoch_body example_framework example_args [0] ?dl ?vl 12 example_state = Inr s' \<and>
     saved_files (events s') = [''./checkpoint/snapshot/checkpoint_epoch_12.pth.tar''] \<and>
     files s' ''./checkpoint/snapshot/checkpoint_epoch_12.pth.tar'' \<noteq> None"
    unfolding name name' evs by auto
  from th0 ne nwr have "epoch_body ?fw0 example_args [0] ?dl ?vl 12 example_state =
      Inl (SaveError (checkpoint_filename (snapshot example_args) 12))"
    by blast
  then have ab: "epoch_body ?fw0 example_args [0] ?dl ?vl 12 example_state =
      Inl (SaveError ''./checkpoint/snapshot/checkpoint_epoch_12.pth.tar'')"
    unfolding name' .
  from name' snap have n1: "checkpoint_filename ''./checkpoint/snapshot/'' 12 =
      ''./checkpoint/snapshot/checkpoint_epoch_12.pth.tar''"
    by simp
  from n1 name3 rt ex ab show ?thesis
    by blast
qed

section \<open>The steps of a run\<close>

lemma example_preconditions: "run_preconditions example_framework example_args Map.empty"
  by code_simp

lemma run_preconditionsD:
  assumes "run_preconditions fw a fs"
  obtains GPUs nets where "int_list (str_split (CHR '','') (devices_id a)) = Inr GPUs"
    and "load_models fw a fs = Inr nets"
    and "\<forall>e \<in> set [start_epoch a .. end_epoch a].
           DataLoader_train fw (dataroot a) (batchsize GPUs (train_batchsize a)) e \<noteq> [] \<and>
           writable fw (checkpoint_filename (snapshot a) e)"
  using assms by (auto simp add: run_preconditions_def list_all_iff split: sum.splits)

lemma main_run:
  assumes "run_preconditions fw a fs"
  shows "\<exists>s'. main fw a fs = Inr s' \<and> last (events s') = Writer_close \<and>
           steps (events s') = concat (map (epoch_steps (snapshot a)) [start_epoch a .. end_epoch a])"
proof -
  from assms obtain GPUs nets
    where gp: "int_list (str_split (CHR '','') (devices_id a)) = Inr GPUs"
      and ld: "load_models fw a fs = Inr nets"
      and ne: "\<forall>e \<in> set [start_epoch a .. end_epoch a].
                 DataLoader_train fw (dataroot a) (batchsize GPUs (train_batchsize a)) e \<noteq> [] \<and>
                 writable fw (checkpoint_filename (snapshot a) e)"
    by (rule run_preconditionsD)
  let ?dl = "DataLoader_train fw (dataroot a) (batchsize GPUs (train_batchsize a))"
  let ?vl = "DataLoader_val fw (val_dataroot a) (batchsize GPUs (val_batchsize a))"
  from epoch_loop_run [where dl = ?dl and es = "[start_epoch a .. end_epoch a]" and fw = fw and a = a
      and GPUs = GPUs and vl = ?vl and s = "initial_state fw a fs nets"] ne
  obtain s1 where l: "epoch_loop fw a GPUs ?dl ?vl [start_epoch a .. end_epoch a] (initial_state fw a fs nets) = Inr s1"
    and st: "steps (events s1) = steps (events (initial_state fw a fs nets :: ('a, 'c, 'd) state)) @
               concat (map (epoch_steps (snapshot a)) [start_epoch a .. end_epoch a])"
    by blast
  have "main fw a fs = Inr (emit [Writer_close] s1)"
    by (simp add: main_def gp ld Let_def l)
  then show ?thesis
    using st by (auto simp add: initial_state_def)
qed

lemma epoch_loop_returns:
  assumes "epoch_loop fw a GPUs dl vl es s = Inr s'"
  shows "\<forall>e \<in> set es. dl e \<noteq> [] \<and> writable fw (checkpoint_filename (snapshot a) e)"
  using assms
proof (induction es arbitrary: s)
  case Nil
  show ?case by simp
next
  case (Cons e es)
  from Cons.prems obtain s1 where b: "epoch_body fw a GPUs dl vl e s = Inr s1"
    and l: "epoch_loop fw a GPUs dl vl es s1 = Inr s'"
    by (cases "epoch_body fw a GPUs dl vl e s") simp_all
  from Cons.IH [OF l] epoch_body_returns [OF b] show ?case by simp
qed

lemma main_returns_preconditions:
  assumes "main fw a fs = Inr s'"
  shows "run_preconditions fw a fs"
proof -
  from assms obtain GPUs where gp: "int_list (str_split (CHR '','') (devices_id a)) = Inr GPUs"
    by (cases "int_list (str_split (CHR '','') (devices_id a))") (simp_all add: main_def)
  from assms gp obtain nets where ld: "load_models fw a fs = Inr nets"
    by (cases "load_models fw a fs") (simp_all add: main_def)
  let ?dl = "DataLoader_train fw (dataroot a) (batchsize GPUs (train_batchsize a))"
  let ?vl = "DataLoader_val fw (val_dataroot a) (batchsize GPUs (val_batchsize a))"
  from assms gp ld obtain s1 where
    "epoch_loop fw a GPUs ?dl ?vl [start_epoch a .. end_epoch a] (initial_state fw a fs nets) = Inr s1"
    by (cases "epoch_loop fw a GPUs ?dl ?vl [start_epoch a .. end_epoch a] (initial_state fw a fs nets)")
       (simp_all add: main_def Let_def)
  from epoch_loop_returns [OF this] gp ld show ?thesis
    by (simp add: run_preconditions_def list_all_iff)
qed

lemma main_first_epoch_raises:
  assumes "int_list (str_split (CHR '','') (devices_id a)) = Inr GPUs"
    and "load_models fw a fs = Inr nets"
    and "start_epoch a \<le> end_epoch a"
    and "epoch_body fw a GPUs (DataLoader_train fw (dataroot a) (batchsize GPUs (train_batchsize a)))
           (DataLoader_val fw (val_dataroot a) (batchsize GPUs (val_batchsize a)))
           (start_epoch a) (initial_state fw a fs nets) = Inl err"
  shows "main fw a fs = Inl err"
proof -
  have "[start_epoch a .. end_epoch a] = start_epoch a # [start_epoch a + 1 .. end_epoch a]"
    using assms(3) by (simp add: upto_rec1)
  then show ?thesis
    by (simp add: main_def assms(1,2,4) Let_def)
qed

lemma training_passes_epochs:
  "training_passes (concat (map (epoch_steps d) es)) = length es"
  by (induction es) (simp_all add: training_passes_def epoch_steps_def)

lemma training_pass_epochs:
  "Training_pass e \<in> set (concat (map (epoch_steps d) es)) \<longleftrightarrow> e \<in> set es"
  by (induction es) (auto simp add: epoch_steps_def)

lemma checkpoint_writes_epochs:
  "checkpoint_writes e (concat (map (epoch_steps d) es)) = count_list es e"
  by (induction es) (simp_all add: checkpoint_writes_def epoch_steps_def)

lemma count_list_upto: "count_list [i..j] e = (if i \<le> e \<and> e \<le> j then 1 else 0)"
proof (induction i j rule: upto.induct)
  case (1 i j)
  show ?case
  proof (cases "i \<le> j")
    case True
    with 1 show ?thesis
      by (subst upto.simps) auto
  next
    case False
    then show ?thesis by simp
  qed
qed

text \<open>The checkpoints that a complete loop leaves: one record for every epoch, under the
  name of the epoch; no other file is touched.\<close>

lemma epoch_loop_files_written:
  assumes "\<forall>e \<in> set es. dl e \<noteq> [] \<and> writable fw (checkpoint_filename (snapshot a) e)"
    and "distinct es"
  shows "\<exists>s'. epoch_loop fw a GPUs dl vl es s = Inr s' \<and>
           (\<forall>e \<in> set es. \<exists>w1 w2. files s' (checkpoint_filename (snapshot a) e) =
              Some [''epoch'' \<mapsto> Epoch e, ''plfd_backbone'' \<mapsto> Weights w1,
                    ''auxiliarynet'' \<mapsto> Weights w2]) \<and>
           (\<forall>f. f \<notin> checkpoint_filename (snapshot a) ` set es \<longrightarrow> files s' f = files s f)"
  using assms
proof (induction es arbitrary: s)
  case Nil
  then show ?case by simp
next
  case (Cons e es)
  then have ne: "dl e \<noteq> []" and wr: "writable fw (checkpoint_filename (snapshot a) e)"
    by simp_all
  from epoch_body_run [where dl = dl and e = e and fw = fw and a = a and GPUs = GPUs and vl = vl and s = s] ne wr
  obtain s1 r s0 where b: "epoch_body fw a GPUs dl vl e s = Inr s1"
    and "train fw a (dl e) GPUs e s = Inr (r, s0)"
    and f1: "files s1 = (files s)(checkpoint_filename (snapshot a) e \<mapsto> checkpoint_record e s0)"
    by blast
  have p: "\<forall>e \<in> set es. dl e \<noteq> [] \<and> writable fw (checkpoint_filename (snapshot a) e)"
    using Cons.prems(1) by simp
  have d: "distinct es"
    using Cons.prems(2) by simp
  from Cons.IH [OF p d, of s1]
  obtain s' where l: "epoch_loop fw a GPUs dl vl es s1 = Inr s'"
    and w: "\<forall>e \<in> set es. \<exists>w1 w2. files s' (checkpoint_filename (snapshot a) e) =
              Some [''epoch'' \<mapsto> Epoch e, ''plfd_backbone'' \<mapsto> Weights w1,
                    ''auxiliarynet'' \<mapsto> Weights w2]"
    and k: "\<forall>f. f \<notin> checkpoint_filename (snapshot a) ` set es \<longrightarrow> files s' f = files s1 f"
    by blast
  have "e \<notin> set es"
    using Cons.prems(2) by simp
  then have "checkpoint_filename (snapshot a) e \<notin> checkpoint_filename (snapshot a) ` set es"
    by (auto simp add: checkpoint_filename_inject)
  with k f1 have "files s' (checkpoint_filename (snapshot a) e) = Some (checkpoint_record e s0)"
    by simp
  then have we: "\<exists>w1 w2. files s' (checkpoint_filename (snapshot a) e) =
              Some [''epoch'' \<mapsto> Epoch e, ''plfd_backbone'' \<mapsto> Weights w1,
                    ''auxiliarynet'' \<mapsto> Weights w2]"
    unfolding checkpoint_record_def by blast
  have k': "\<forall>f. f \<notin> checkpoint_filename (snapshot a) ` set (e # es) \<longrightarrow> files s' f = files s f"
    using k f1 by auto
  have l': "epoch_loop fw a GPUs dl vl (e # es) s = Inr s'"
    using b l by simp
  have w': "\<forall>x \<in> set (e # es). \<exists>w1 w2. files s' (checkpoint_filename (snapshot a) x) =
              Some [''epoch'' \<mapsto> Epoch x, ''plfd_backbone'' \<mapsto> Weights w1,
                    ''auxiliarynet'' \<mapsto> Weights w2]"
    using w we by (metis set_ConsD)
  from l' w' k' show ?case
    by blast
qed

lemma main_files_written:
  assumes "run_preconditions fw a fs"
  shows "\<exists>s'. main fw a fs = Inr s' \<and>
           (\<forall>e \<in> set [start_epoch a .. end_epoch a].
              \<exists>w1 w2. files s' (checkpoint_filename (snapshot a) e) =
                Some [''epoch'' \<mapsto> Epoch e, ''plfd_backbone'' \<mapsto> Weights w1,
                      ''auxiliarynet'' \<mapsto> Weights w2])"
proof -
  from assms obtain GPUs nets
    where gp: "int_list (str_split (CHR '','') (devices_id a)) = Inr GPUs"
      and ld: "load_models fw a fs = Inr nets"
      and ne: "\<forall>e \<in> set [start_epoch a .. end_epoch a].
                 DataLoader_train fw (dataroot a) (batchsize GPUs (train_batchsize a)) e \<noteq> [] \<and>
                 writable fw (checkpoint_filename (snapshot a) e)"
    by (rule run_preconditionsD)
  let ?dl = "DataLoader_train fw (dataroot a) (batchsize GPUs (train_batchsize a))"
  let ?vl = "DataLoader_val fw (val_dataroot a) (batchsize GPUs (val_batchsize a))"
  from epoch_loop_files_written [where dl = ?dl and es = "[start_epoch a .. end_epoch a]" and fw = fw
      and a = a and GPUs = GPUs and vl = ?vl and s = "initial_state fw a fs nets"] ne
  obtain s1 where l: "epoch_loop fw a GPUs ?dl ?vl [start_epoch a .. end_epoch a] (initial_state fw a fs nets) = Inr s1"
    and w: "\<forall>e \<in> set [start_epoch a .. end_epoch a].
              \<exists>w1 w2. files s1 (checkpoint_filename (snapshot a) e) =
                Some [''epoch'' \<mapsto> Epoch e, ''plfd_backbone'' \<mapsto> Weights w1,
                      ''auxiliarynet'' \<mapsto> Weights w2]"
    by auto
  have "main fw a fs = Inr (emit [Writer_close] s1)"
    by (simp add: main_def gp ld Let_def l)
  with w show ?thesis
    by simp
qed

text \<open>
  Claim C4. An epoch iteration whose training loader yields a batch and whose checkpoint
  file can be written does, in this order: the training pass; one write of the checkpoint,
  which stores the epoch and the state dictionaries that the two networks have after the
  training pass; the validation pass; one step of the learning-rate scheduler on the loss
  that this validation pass returned; the logging of the scalars, with the two training
  losses and the same validation loss. In a run in which no step raises, the steps of the
  trace are these, epoch after epoch from the start epoch to the end epoch; exactly one
  checkpoint is written for every epoch of the range and none for any other; and at the end
  every epoch of the range has its checkpoint file, which holds that epoch.
\<close>

theorem epoch_steps_in_order:
  "(dl e \<noteq> [] \<and> writable fw (checkpoint_filename (snapshot a) e) \<longrightarrow>
      (\<exists>r s1 s'.
         train fw a (dl e) GPUs e s = Inr (r, s1) \<and>
         epoch_body fw a GPUs dl vl e s = Inr s' \<and>
         events s' =
           events s @
           Call_train e #
           concat (replicate (length (dl e))
             [Forward_backbone (training (plfd_backbone s)) (grad_enabled s),
              Forward_auxiliary (training (auxiliarynet s)) (grad_enabled s), Optimizer_step]) @
           [Save_checkpoint e (checkpoint_filename (snapshot a) e), Call_validate e] @
           replicate (length vl) (Forward_backbone False False) @
           [Scheduler_step (fst (validate fw vl e s1)),
            Add_scalar ''data/weighted_loss'' (fst r) e,
            Add_scalars ''data/loss'' (fst (validate fw vl e s1)) (snd r) e] \<and>
         files s' =
           (files s)(checkpoint_filename (snapshot a) e \<mapsto>
              [''epoch'' \<mapsto> Epoch e,
               ''plfd_backbone'' \<mapsto> Weights (state_dict (plfd_backbone s1)),
               ''auxiliarynet'' \<mapsto> Weights (state_dict (auxiliarynet s1))]) \<and>
         state_dict (plfd_backbone s') = state_dict (plfd_backbone s1) \<and>
         state_dict (auxiliarynet s') = state_dict (auxiliarynet s1) \<and>
         optimizer s' = ReduceLROnPlateau_step fw (optimizer s1) (fst (validate fw vl e s1)))) \<and>
   (run_preconditions fw a fs \<longrightarrow>
      (\<exists>s'. main fw a fs = Inr s' \<and>
         steps (events s') = concat (map (epoch_steps (snapshot a)) [start_epoch a .. end_epoch a]) \<and>
         (\<forall>e. checkpoint_writes e (steps (events s')) =
                (if start_epoch a \<le> e \<and> e \<le> end_epoch a then 1 else 0)) \<and>
         (\<forall>e \<in> set [start_epoch a .. end_epoch a].
            \<exists>w1 w2. files s' (checkpoint_filename (snapshot a) e) =
              Some [''epoch'' \<mapsto> Epoch e, ''plfd_backbone'' \<mapsto> Weights w1,
                    ''auxiliarynet'' \<mapsto> Weights w2])))"
proof (intro conjI impI)
  assume h: "dl e \<noteq> [] \<and> writable fw (checkpoint_filename (snapshot a) e)"
  from epoch_body_run [where dl = dl and e = e and fw = fw and a = a and GPUs = GPUs and vl = vl and s = s] h
  obtain s' r s1 where "epoch_body fw a GPUs dl vl e s = Inr s'"
    and "train fw a (dl e) GPUs e s = Inr (r, s1)"
    and "events s' = events s @ epoch_events fw a (dl e) vl e s r (fst (validate fw vl e s1))"
    and "state_dict (plfd_backbone s') = state_dict (plfd_backbone s1)"
    and "state_dict (auxiliarynet s') = state_dict (auxiliarynet s1)"
    and "optimizer s' = ReduceLROnPlateau_step fw (optimizer s1) (fst (validate fw vl e s1))"
    and "files s' = (files s)(checkpoint_filename (snapshot a) e \<mapsto> checkpoint_record e s1)"
    by blast
  then show "\<exists>r s1 s'.
         train fw a (dl e) GPUs e s = Inr (r, s1) \<and>
         epoch_body fw a GPUs dl vl e s = Inr s' \<and>
         events s' =
           events s @
           Call_train e #
           concat (replicate (length (dl e))
             [Forward_backbone (training (plfd_backbone s)) (grad_enabled s),
              Forward_auxiliary (training (auxiliarynet s)) (grad_enabled s), Optimizer_step]) @
           [Save_checkpoint e (checkpoint_filename (snapshot a) e), Call_validate e] @
           replicate (length vl) (Forward_backbone False False) @
           [Scheduler_step (fst (validate fw vl e s1)),
            Add_scalar ''data/weighted_loss'' (fst r) e,
            Add_scalars ''data/loss'' (fst (validate fw vl e s1)) (snd r) e] \<and>
         files s' =
           (files s)(checkpoint_filename (snapshot a) e \<mapsto>
              [''epoch'' \<mapsto> Epoch e,
               ''plfd_backbone'' \<mapsto> Weights (state_dict (plfd_backbone s1)),
               ''auxiliarynet'' \<mapsto> Weights (state_dict (auxiliarynet s1))]) \<and>
         state_dict (plfd_backbone s') = state_dict (plfd_backbone s1) \<and>
         state_dict (auxiliarynet s') = state_dict (auxiliarynet s1) \<and>
         optimizer s' = ReduceLROnPlateau_step fw (optimizer s1) (fst (validate fw vl e s1))"
    by (simp add: epoch_events_def batch_events_def checkpoint_record_def)
next
  assume p: "run_preconditions fw a fs"
  from main_run [OF p] obtain s' where m: "main fw a fs = Inr s'"
    and st: "steps (events s') = concat (map (epoch_steps (snapshot a)) [start_epoch a .. end_epoch a])"
    by blast
  from main_files_written [OF p] m
  have w: "\<forall>e \<in> set [start_epoch a .. end_epoch a].
            \<exists>w1 w2. files s' (checkpoint_filename (snapshot a) e) =
              Some [''epoch'' \<mapsto> Epoch e, ''plfd_backbone'' \<mapsto> Weights w1,
                    ''auxiliarynet'' \<mapsto> Weights w2]"
    by auto
  have c: "\<forall>e. checkpoint_writes e (steps (events s')) =
                (if start_epoch a \<le> e \<and> e \<le> end_epoch a then 1 else 0)"
    by (simp add: st checkpoint_writes_epochs count_list_upto)
  from m st c w show "\<exists>s'. main fw a fs = Inr s' \<and>
         steps (events s') = concat (map (epoch_steps (snapshot a)) [start_epoch a .. end_epoch a]) \<and>
         (\<forall>e. checkpoint_writes e (steps (events s')) =
                (if start_epoch a \<le> e \<and> e \<le> end_epoch a then 1 else 0)) \<and>
         (\<forall>e \<in> set [start_epoch a .. end_epoch a].
            \<exists>w1 w2. files s' (checkpoint_filename (snapshot a) e) =
              Some [''epoch'' \<mapsto> Epoch e, ''plfd_backbone'' \<mapsto> Weights w1,
                    ''auxiliarynet'' \<mapsto> Weights w2])"
    by blast
qed

theorem epoch_steps_in_order_witness:
  "(\<exists>s'. main example_framework example_args Map.empty = Inr s' \<and>
     steps (events s') =
       [Training_pass 1, Checkpoint_write 1 ''./checkpoint/snapshot/checkpoint_epoch_1.pth.tar'',
        Validation_pass 1, LR_scheduler_step, Scalar_logging 1, Scalar_logging 1,
        Training_pass 2, Checkpoint_write 2 ''./checkpoint/snapshot/checkpoint_epoch_2.pth.tar'',
        Validation_pass 2, LR_scheduler_step, Scalar_logging 2, Scalar_logging 2] \<and>
     checkpoint_writes 2 (steps (events s')) = 1) \<and>
   (\<exists>r s1 s'.
      train example_framework example_args (DataLoader_train example_framework ''train'' 128 1) [0] 1
        example_state = Inr (r, s1) \<and>
      epoch_body example_framework example_args [0] (DataLoader_train example_framework ''train'' 128)
        (DataLoader_val example_framework ''val'' 8) 1 example_state = Inr s' \<and>
      files s' ''./checkpoint/snapshot/checkpoint_epoch_1.pth.tar'' =
        Some [''epoch'' \<mapsto> Epoch 1,
              ''plfd_backbone'' \<mapsto> Weights (state_dict (plfd_backbone s1)),
              ''auxiliarynet'' \<mapsto> Weights (state_dict (auxiliarynet s1))] \<and>
      optimizer s' =
        ReduceLROnPlateau_step example_framework (optimizer s1)
          (fst (validate example_framework (DataLoader_val example_framework ''val'' 8) 1 s1)))"
proof -
  let ?dl = "DataLoader_train example_framework ''train'' 128"
  let ?vl = "DataLoader_val example_framework ''val'' 8"
  have eps: "concat (map (epoch_steps (snapshot example_args)) [start_epoch example_args .. end_epoch example_args]) =
       [Training_pass 1, Checkpoint_write 1 ''./checkpoint/snapshot/checkpoint_epoch_1.pth.tar'',
        Validation_pass 1, LR_scheduler_step, Scalar_logging 1, Scalar_logging 1,
        Training_pass 2, Checkpoint_write 2 ''./checkpoint/snapshot/checkpoint_epoch_2.pth.tar'',
        Validation_pass 2, LR_scheduler_step, Scalar_logging 2, Scalar_logging 2]"
    by code_simp
  have rng: "start_epoch example_args \<le> 2 \<and> 2 \<le> end_epoch example_args"
    by (simp add: example_args_def default_args_def)
  have name: "checkpoint_filename (snapshot example_args) 1 =
                ''./checkpoint/snapshot/checkpoint_epoch_1.pth.tar''"
    by code_simp
  have h: "?dl 1 \<noteq> [] \<and> writable example_framework (checkpoint_filename (snapshot example_args) 1)"
    by (simp add: example_framework_def)
  note th = epoch_steps_in_order [where dl = ?dl and e = 1 and fw = example_framework
      and a = example_args and GPUs = "[0]" and vl = ?vl and s = example_state and fs = Map.empty]
  from th example_preconditions obtain s'
    where m: "main example_framework example_args Map.empty = Inr s'"
      and s: "steps (events s') = concat (map (epoch_steps (snapshot example_args)) [start_epoch example_args .. end_epoch example_args])"
      and c: "\<forall>e. checkpoint_writes e (steps (events s')) =
                  (if start_epoch example_args \<le> e \<and> e \<le> end_epoch example_args then 1 else 0)"
    by blast
  from c rng have "checkpoint_writes 2 (steps (events s')) = 1"
    by simp
  with m s eps have 1: "\<exists>s'. main example_framework example_args Map.empty = Inr s' \<and>
     steps (events s') =
       [Training_pass 1, Checkpoint_write 1 ''./checkpoint/snapshot/checkpoint_epoch_1.pth.tar'',
        Validation_pass 1, LR_scheduler_step, Scalar_logging 1, Scalar_logging 1,
        Training_pass 2, Checkpoint_write 2 ''./checkpoint/snapshot/checkpoint_epoch_2.pth.tar'',
        Validation_pass 2, LR_scheduler_step, Scalar_logging 2, Scalar_logging 2] \<and>
     checkpoint_writes 2 (steps (events s')) = 1"
    by simp
  from th h obtain r s1 t
    where "train example_framework example_args (?dl 1) [0] 1 example_state = Inr (r, s1)"
      and "epoch_body example_framework example_args [0] ?dl ?vl 1 example_state = Inr t"
      and "files t = (files example_state)(checkpoint_filename (snapshot example_args) 1 \<mapsto>
              [''epoch'' \<mapsto> Epoch 1,
               ''plfd_backbone'' \<mapsto> Weights (state_dict (plfd_backbone s1)),
               ''auxiliarynet'' \<mapsto> Weights (state_dict (auxiliarynet s1))])"
      and "optimizer t = ReduceLROnPlateau_step example_framework (optimizer s1)
             (fst (validate example_framework ?vl 1 s1))"
    by blast
  then have 2: "\<exists>r s1 s'.
      train example_framework example_args (?dl 1) [0] 1 example_state = Inr (r, s1) \<and>
      epoch_body example_framework example_args [0] ?dl ?vl 1 example_state = Inr s' \<and>
      files s' ''./checkpoint/snapshot/checkpoint_epoch_1.pth.tar'' =
        Some [''epoch'' \<mapsto> Epoch 1,
              ''plfd_backbone'' \<mapsto> Weights (state_dict (plfd_backbone s1)),
              ''auxiliarynet'' \<mapsto> Weights (state_dict (auxiliarynet s1))] \<and>
      optimizer s' =
        ReduceLROnPlateau_step example_framework (optimizer s1)
          (fst (validate example_framework ?vl 1 s1))"
    unfolding name by auto
  from 1 2 show ?thesis ..
qed

text \<open>
  Claim C6, amended. A run in which no step raises makes exactly
  \<open>end_epoch - start_epoch + 1\<close> training passes (none when the start epoch is greater
  than the end epoch), one for each epoch of the range and for no other, and then returns,
  closing the writer last. The loop has no other exit; a run that does not complete ends
  with an exception that a step raised.
\<close>

theorem epoch_loop_iterations:
  "(run_preconditions fw a fs \<longrightarrow>
      (\<exists>s'. main fw a fs = Inr s' \<and>
         training_passes (steps (events s')) = nat (end_epoch a - start_epoch a + 1) \<and>
         (\<forall>e. Training_pass e \<in> set (steps (events s')) \<longleftrightarrow> start_epoch a \<le> e \<and> e \<le> end_epoch a) \<and>
         last (events s') = Writer_close)) \<and>
   (\<not> run_preconditions fw a fs \<longrightarrow> (\<exists>err. main fw a fs = Inl err))"
proof (intro conjI impI)
  assume "run_preconditions fw a fs"
  from main_run [OF this] obtain s' where "main fw a fs = Inr s'"
    and "last (events s') = Writer_close"
    and "steps (events s') = concat (map (epoch_steps (snapshot a)) [start_epoch a .. end_epoch a])"
    by blast
  then show "\<exists>s'. main fw a fs = Inr s' \<and>
         training_passes (steps (events s')) = nat (end_epoch a - start_epoch a + 1) \<and>
         (\<forall>e. Training_pass e \<in> set (steps (events s')) \<longleftrightarrow> start_epoch a \<le> e \<and> e \<le> end_epoch a) \<and>
         last (events s') = Writer_close"
    by (simp add: training_passes_epochs training_pass_epochs del: set_concat)
next
  assume n: "\<not> run_preconditions fw a fs"
  show "\<exists>err. main fw a fs = Inl err"
  proof (cases "main fw a fs")
    case (Inl err)
    then show ?thesis by blast
  next
    case (Inr s')
    with main_returns_preconditions n show ?thesis by blast
  qed
qed

theorem epoch_loop_iterations_witness:
  "(\<exists>s'. main example_framework example_args Map.empty = Inr s' \<and>
      training_passes (steps (events s')) = 2 \<and> last (events s') = Writer_close) \<and>
   (\<exists>s'. main example_framework (example_args\<lparr>start_epoch := 3\<rparr>) Map.empty = Inr s' \<and>
      training_passes (steps (events s')) = 0 \<and> last (events s') = Writer_close) \<and>
   (\<exists>err. main read_only_framework example_args Map.empty = Inl err)"
proof -
  have n: "nat (end_epoch example_args - start_epoch example_args + 1) = 2"
    by (simp add: example_args_def default_args_def)
  have p0: "run_preconditions example_framework (example_args\<lparr>start_epoch := 3\<rparr>) Map.empty"
    by code_simp
  have n0: "nat (end_epoch (example_args\<lparr>start_epoch := 3\<rparr>) - start_epoch (example_args\<lparr>start_epoch := 3\<rparr>) + 1) = 0"
    by (simp add: example_args_def default_args_def)
  have p1: "\<not> run_preconditions read_only_framework example_args Map.empty"
    by code_simp
  from epoch_loop_iterations [of example_framework example_args Map.empty] example_preconditions n
  have a: "\<exists>s'. main example_framework example_args Map.empty = Inr s' \<and>
      training_passes (steps (events s')) = 2 \<and> last (events s') = Writer_close"
    by auto
  from epoch_loop_iterations [of example_framework "example_args\<lparr>start_epoch := 3\<rparr>" Map.empty] p0 n0
  have b: "\<exists>s'. main example_framework (example_args\<lparr>start_epoch := 3\<rparr>) Map.empty = Inr s' \<and>
      training_passes (steps (events s')) = 0 \<and> last (events s') = Writer_close"
    by auto
  from epoch_loop_iterations [of read_only_framework example_args Map.empty] p1
  have c: "\<exists>err. main read_only_framework example_args Map.empty = Inl err"
    by blast
  from a b c show ?thesis by blast
qed

text \<open>
  Claim C6 as it is worded fails: reaching the end epoch and external termination are not
  the only things that stop a run. With the start epoch 1 and the end epoch 2, a run whose
  snapshot directory cannot be written to stops at the checkpoint write of epoch 1, and a
  run whose training loader yields no batch stops in the training pass of epoch 1; neither
  makes the two iterations.
\<close>

theorem epoch_loop_iterations_counterexample:
  "main read_only_framework example_args Map.empty =
     Inl (SaveError ''./checkpoint/snapshot/checkpoint_epoch_1.pth.tar'') \<and>
   main no_batches_framework example_args Map.empty = Inl UnboundLocalError \<and>
   nat (end_epoch example_args - start_epoch example_args + 1) = 2"
proof -
  have se: "start_epoch example_args \<le> end_epoch example_args" and st: "start_epoch example_args = 1"
    by (simp_all add: example_args_def default_args_def)
  have gp: "int_list (str_split (CHR '','') (devices_id example_args)) = Inr [0]"
    by code_simp
  have name: "checkpoint_filename (snapshot example_args) 1 =
                ''./checkpoint/snapshot/checkpoint_epoch_1.pth.tar''"
    by code_simp
  have ld1: "load_models read_only_framework example_args Map.empty =
               Inr (\<lparr>training = True, state_dict = 0\<rparr>, \<lparr>training = True, state_dict = 0\<rparr>)"
    by code_simp
  have ld2: "load_models no_batches_framework example_args Map.empty =
               Inr (\<lparr>training = True, state_dict = 0\<rparr>, \<lparr>training = True, state_dict = 0\<rparr>)"
    by code_simp
  have ne: "DataLoader_train read_only_framework (dataroot example_args)
              (batchsize [0] (train_batchsize example_args)) (start_epoch example_args) \<noteq> []"
    by (simp add: read_only_framework_def example_framework_def)
  have nw: "\<not> writable read_only_framework (checkpoint_filename (snapshot example_args) (start_epoch example_args))"
    by (simp add: read_only_framework_def)
  have em: "DataLoader_train no_batches_framework (dataroot example_args)
              (batchsize [0] (train_batchsize example_args)) (start_epoch example_args) = []"
    by (simp add: no_batches_framework_def)
  have 1: "main read_only_framework example_args Map.empty =
             Inl (SaveError ''./checkpoint/snapshot/checkpoint_epoch_1.pth.tar'')"
    using main_first_epoch_raises [OF gp ld1 se epoch_body_unwritable
        [where dl = "DataLoader_train read_only_framework (dataroot example_args)
              (batchsize [0] (train_batchsize example_args))", OF ne nw]]
    by (simp add: st name)
  have 2: "main no_batches_framework example_args Map.empty = Inl UnboundLocalError"
    using main_first_epoch_raises [OF gp ld2 se epoch_body_empty
        [where dl = "DataLoader_train no_batches_framework (dataroot example_args)
              (batchsize [0] (train_batchsize example_args))", OF em]]
    by simp
  have 3: "nat (end_epoch example_args - start_epoch example_args + 1) = 2"
    by (simp add: example_args_def default_args_def)
  from 1 2 3 show ?thesis by blast
qed

section \<open>The mode of the networks in the training pass\<close>

lemma epoch_loop_grows:
  assumes "epoch_loop fw a GPUs dl vl es s = Inr s'"
  shows "\<exists>evs. events s' = events s @ evs"
  using assms
proof (induction es arbitrary: s)
  case Nil
  then show ?case by simp
next
  case (Cons e es)
  obtain s0 where "epoch_body fw a GPUs dl vl e s = Inr s0"
    using Cons.prems by (cases "epoch_body fw a GPUs dl vl e s") simp_all
  then have ne: "dl e \<noteq> [] \<and> writable fw (checkpoint_filename (snapshot a) e)"
    by (rule epoch_body_returns)
  from epoch_body_run [where dl = dl and e = e and fw = fw and a = a and GPUs = GPUs and vl = vl and s = s] ne
  obtain s1 evs1 where b: "epoch_body fw a GPUs dl vl e s = Inr s1" and e1: "events s1 = events s @ evs1"
    by blast
  with Cons.prems have "epoch_loop fw a GPUs dl vl es s1 = Inr s'"
    by simp
  from Cons.IH [OF this] e1 show ?case
    by auto
qed

lemma modes_violated:
  "\<not> modes_respected ph (xs @ Call_train e # Forward_backbone False g # ys)"
proof (induction xs arbitrary: ph)
  case Nil
  show ?case by simp
next
  case (Cons x xs)
  then show ?case by (cases x) simp_all
qed

lemma later_epoch_in_evaluation_mode:
  assumes "epoch_loop fw a GPUs dl vl (e1 # e2 # es) s = Inr s'"
  shows "\<exists>xs ys. events s' = xs @ Call_train e2 # Forward_backbone False (grad_enabled s) # ys"
proof -
  obtain s0 where "epoch_body fw a GPUs dl vl e1 s = Inr s0"
    using assms by (cases "epoch_body fw a GPUs dl vl e1 s") simp_all
  then have ne1: "dl e1 \<noteq> [] \<and> writable fw (checkpoint_filename (snapshot a) e1)"
    by (rule epoch_body_returns)
  from epoch_body_run [where dl = dl and e = e1 and fw = fw and a = a and GPUs = GPUs and vl = vl and s = s] ne1
  obtain s1 where b1: "epoch_body fw a GPUs dl vl e1 s = Inr s1"
    and ev1: "\<not> training (plfd_backbone s1)"
    and g1: "grad_enabled s1 = grad_enabled s"
    by blast
  from assms b1 have l1: "epoch_loop fw a GPUs dl vl (e2 # es) s1 = Inr s'"
    by simp
  obtain s0' where "epoch_body fw a GPUs dl vl e2 s1 = Inr s0'"
    using l1 by (cases "epoch_body fw a GPUs dl vl e2 s1") simp_all
  then have ne2: "dl e2 \<noteq> [] \<and> writable fw (checkpoint_filename (snapshot a) e2)"
    by (rule epoch_body_returns)
  then obtain n where n: "length (dl e2) = Suc n"
    by (cases "dl e2") simp_all
  from epoch_body_run [where dl = dl and e = e2 and fw = fw and a = a and GPUs = GPUs and vl = vl and s = s1] ne2
  obtain s2 evs2 where b2: "epoch_body fw a GPUs dl vl e2 s1 = Inr s2"
    and e2: "events s2 = events s1 @ Call_train e2 # Forward_backbone False (grad_enabled s1) # evs2"
    using ev1 by (auto simp add: epoch_events_def n batch_events_def)
  from l1 b2 have "epoch_loop fw a GPUs dl vl es s2 = Inr s'"
    by simp
  from epoch_loop_grows [OF this] obtain evs where "events s' = events s2 @ evs"
    by blast
  with e2 g1 have "events s' = events s1 @ Call_train e2 # Forward_backbone False (grad_enabled s) # (evs2 @ evs)"
    by simp
  then show ?thesis
    by blast
qed

lemma training_pass_outside_training_mode:
  assumes "run_preconditions fw a fs" and "start_epoch a < end_epoch a"
  shows "\<exists>s' xs ys. main fw a fs = Inr s' \<and>
           events s' = xs @ Call_train (start_epoch a + 1) # Forward_backbone False True # ys \<and>
           \<not> modes_respected Outside (events s')"
proof -
  from assms(1) obtain GPUs nets
    where gp: "int_list (str_split (CHR '','') (devices_id a)) = Inr GPUs"
      and ld: "load_models fw a fs = Inr nets"
      and ne: "\<forall>e \<in> set [start_epoch a .. end_epoch a].
                 DataLoader_train fw (dataroot a) (batchsize GPUs (train_batchsize a)) e \<noteq> [] \<and>
                 writable fw (checkpoint_filename (snapshot a) e)"
    by (rule run_preconditionsD)
  let ?dl = "DataLoader_train fw (dataroot a) (batchsize GPUs (train_batchsize a))"
  let ?vl = "DataLoader_val fw (val_dataroot a) (batchsize GPUs (val_batchsize a))"
  from epoch_loop_run [where dl = ?dl and es = "[start_epoch a .. end_epoch a]" and fw = fw and a = a
      and GPUs = GPUs and vl = ?vl and s = "initial_state fw a fs nets"] ne
  obtain s1 where l: "epoch_loop fw a GPUs ?dl ?vl [start_epoch a .. end_epoch a] (initial_state fw a fs nets) = Inr s1"
    by blast
  have "[start_epoch a .. end_epoch a] = start_epoch a # [start_epoch a + 1 .. end_epoch a]"
    using assms(2) by (simp add: upto_rec1)
  moreover have "[start_epoch a + 1 .. end_epoch a] = (start_epoch a + 1) # [start_epoch a + 1 + 1 .. end_epoch a]"
    using assms(2) by (simp add: upto_rec1)
  ultimately obtain es where "[start_epoch a .. end_epoch a] = start_epoch a # (start_epoch a + 1) # es"
    by simp
  with l later_epoch_in_evaluation_mode [of fw a GPUs ?dl ?vl "start_epoch a" "start_epoch a + 1" es "initial_state fw a fs nets" s1]
  obtain xs ys where "events s1 = xs @ Call_train (start_epoch a + 1) # Forward_backbone False True # ys"
    by (auto simp add: initial_state_def)
  then have ev: "events (emit [Writer_close] s1) =
               xs @ Call_train (start_epoch a + 1) # Forward_backbone False True # (ys @ [Writer_close])"
    by simp
  then have "\<not> modes_respected Outside (events (emit [Writer_close] s1))"
    by (simp only: modes_violated not_False_eq_True)
  moreover have "main fw a fs = Inr (emit [Writer_close] s1)"
    by (simp add: main_def gp ld Let_def l)
  ultimately show ?thesis
    using ev by blast
qed

text \<open>
  Claim C1 says that, in every epoch, both networks are in training mode throughout the
  training pass and in evaluation mode throughout the validation pass. \<open>validate\<close> puts
  both networks into evaluation mode, and \<open>train\<close> never sets the mode. On the example,
  run for the epochs 1 and 2, the trace does not respect the mode discipline: the training
  pass of epoch 2 calls both networks in evaluation mode (with gradient tracking enabled).
\<close>

theorem training_pass_in_evaluation_mode:
  "\<exists>s' xs ys. main example_framework example_args Map.empty = Inr s' \<and>
     events s' = xs @ Call_train 2 # Forward_backbone False True # ys \<and>
     \<not> modes_respected Outside (events s')"
proof -
  have "start_epoch example_args < end_epoch example_args" and "start_epoch example_args + 1 = 2"
    by (simp_all add: example_args_def default_args_def)
  with training_pass_outside_training_mode [OF example_preconditions] show ?thesis
    by simp
qed

section \<open>The losses of a training pass\<close>

lemma criterion_loss_pair: "criterion fw a b s = loss_pair fw a b s"
  by (simp add: criterion_def network_outputs_def loss_pair_def Let_def)

lemma length_criterion_values [simp]: "length (criterion_values fw a bs vars) = length bs"
  by (induction bs arbitrary: vars) simp_all

lemma criterion_values_nth:
  "k < length bs \<Longrightarrow> criterion_values fw a bs vars ! k =
     loss_pair fw a (bs ! k) (snd (snd (train_loop fw a (take k bs) vars)))"
proof (induction bs arbitrary: vars k)
  case Nil
  then show ?case by simp
next
  case (Cons b bs)
  then show ?case by (cases k) simp_all
qed

lemma train_loop_meter:
  "meter_sum (fst (train_loop fw a bs vars)) =
     meter_sum (fst vars) + sum_list (map (\<lambda>r. item fw (snd r)) (criterion_values fw a bs vars)) \<and>
   meter_count (fst (train_loop fw a bs vars)) = meter_count (fst vars) + length bs"
  by (induction bs arbitrary: vars)
     (simp_all add: train_batch_meter meter_update_def criterion_loss_pair)

lemma train_loop_avg:
  assumes "bs \<noteq> []"
  shows "meter_avg (fst (train_loop fw a bs vars)) =
           meter_sum (fst (train_loop fw a bs vars)) / real (meter_count (fst (train_loop fw a bs vars)))"
  using assms
  by (cases bs rule: rev_cases) (simp_all add: train_loop_snoc train_batch_meter meter_update_def)

lemma train_loop_mean:
  assumes "bs \<noteq> []"
  shows "meter_avg (fst (train_loop fw a bs (train_begin GPUs e s))) =
           (\<Sum>k<length bs. item fw (snd (loss_pair fw a (bs ! k)
               (snd (snd (train_loop fw a (take k bs) (train_begin GPUs e s))))))) / real (length bs)"
proof -
  let ?vars = "train_begin GPUs e s"
  have "sum_list (map (\<lambda>r. item fw (snd r)) (criterion_values fw a bs ?vars)) =
          (\<Sum>k<length bs. item fw (snd (criterion_values fw a bs ?vars ! k)))"
    by (simp add: sum_list_lessThan)
  also have "\<dots> = (\<Sum>k<length bs. item fw (snd (loss_pair fw a (bs ! k)
               (snd (snd (train_loop fw a (take k bs) ?vars))))))"
    by (rule sum.cong) (simp_all add: criterion_values_nth)
  finally show ?thesis
    using assms
    by (simp add: train_loop_avg train_loop_meter train_begin_fields AverageMeter_new_def)
qed

lemma train_loop_foldl:
  "train_loop fw a bs vars = foldl (\<lambda>v b. train_batch fw a b v) vars bs"
  by (induction bs arbitrary: vars) simp_all

lemma optimizer_steps_append [simp]:
  "optimizer_steps (xs @ ys) = optimizer_steps xs + optimizer_steps ys"
  by (simp add: optimizer_steps_def)

lemma optimizer_steps_batches [simp]:
  "optimizer_steps (concat (replicate n (batch_events s))) = n"
  by (induction n) (simp_all add: batch_events_def optimizer_steps_def)

lemma train_batch_step:
  "\<exists>m' t'. train_batch fw a b (m, p, t) = (m', Some (loss_pair fw a b t), t') \<and>
     meter_sum m' = meter_sum m + item fw (snd (loss_pair fw a b t)) \<and>
     meter_count m' = meter_count m + 1 \<and>
     meter_avg m' = meter_sum m' / real (meter_count m') \<and>
     (optimizer t', state_dict (plfd_backbone t'), state_dict (auxiliarynet t')) =
       optimizer_step fw (optimizer t) (fst (loss_pair fw a b t))
         (if training (plfd_backbone t)
          then backbone_buffers fw (state_dict (plfd_backbone t)) (img b)
          else state_dict (plfd_backbone t),
          if training (auxiliarynet t)
          then auxiliary_buffers fw (state_dict (auxiliarynet t))
                 (fst (backbone_forward fw (training (plfd_backbone t)) (state_dict (plfd_backbone t)) (img b)))
          else state_dict (auxiliarynet t)) \<and>
     optimizer_steps (events t') = optimizer_steps (events t) + 1"
  by (simp add: train_batch_def Let_def criterion_loss_pair meter_update_def forward_update_def
        network_outputs_def optimizer_steps_def)

lemma train_pass:
  assumes "bs \<noteq> []"
  shows "train fw a bs GPUs e s =
           Inr (loss_pair fw a (last bs)
                  (snd (snd (train_loop fw a (take (length bs - 1) bs) (train_begin GPUs e s)))),
                snd (snd (train_loop fw a (take (length bs) bs) (train_begin GPUs e s)))) \<and>
         optimizer_steps (events (snd (snd (train_loop fw a (take (length bs) bs) (train_begin GPUs e s))))) =
           optimizer_steps (events s) + length bs"
proof -
  let ?s' = "snd (snd (train_loop fw a bs (train_begin GPUs e s)))"
  let ?r = "loss_pair fw a (last bs) (snd (snd (train_loop fw a (butlast bs) (train_begin GPUs e s))))"
  have tr: "train fw a bs GPUs e s = Inr (?r, ?s')"
    using assms by (simp add: train_returns criterion_loss_pair)
  have "optimizer_steps (events ?s') = optimizer_steps (events s) + length bs"
    by (simp add: train_state(5) [OF tr] optimizer_steps_def)
       (simp add: optimizer_steps_def [symmetric])
  with tr show ?thesis
    by (simp add: butlast_conv_take)
qed

lemma sum_two: "n = 2 \<Longrightarrow> (\<Sum>k<n. f k) = f 0 + f (1::nat)"
  for f :: "nat \<Rightarrow> real"
  by (simp add: numeral_2_eq_2)

text \<open>
  Claim C5. In a training pass, every batch gets one call of the criterion \<open>PFLDLoss\<close> on
  the ground truth of the batch and the outputs of the two networks, which gives a weighted
  loss and an unweighted loss; one optimizer update, driven by the weighted loss, which
  gives the optimizer and the weights of both networks their new values; and one update of
  the meter with the unweighted loss, after which the meter's average is its sum divided by
  its count. The loop is the left fold of this step over the loader. For a loader with at
  least one batch, \<open>train\<close> returns the two losses of the last batch, computed in the state
  that the loop has reached before that batch; it has made as many optimizer updates as
  there are batches; its meter holds the arithmetic mean of the unweighted losses of the
  batches; and the epoch iteration, when its checkpoint can be written, ends by logging the
  returned weighted loss as \<^verbatim>\<open>data/weighted_loss\<close> and the returned unweighted loss as
  the train loss of \<^verbatim>\<open>data/loss\<close>.
\<close>

theorem train_spec:
  "(let pair = (\<lambda>b t.
          PFLDLoss fw (attribute_gt b) (landmark_gt b) (euler_angle_gt b)
            (auxiliary_forward fw (training (auxiliarynet t)) (state_dict (auxiliarynet t))
               (fst (backbone_forward fw (training (plfd_backbone t)) (state_dict (plfd_backbone t)) (img b))))
            (snd (backbone_forward fw (training (plfd_backbone t)) (state_dict (plfd_backbone t)) (img b)))
            (train_batchsize a));
        reached = (\<lambda>k. snd (snd (train_loop fw a (take k (dl epoch)) (train_begin GPUs epoch s))));
        n = length (dl epoch)
    in
      (\<exists>m' t'.
          train_batch fw a b (m, p, t) = (m', Some (pair b t), t') \<and>
          meter_sum m' = meter_sum m + item fw (snd (pair b t)) \<and>
          meter_count m' = meter_count m + 1 \<and>
          meter_avg m' = meter_sum m' / real (meter_count m') \<and>
          (optimizer t', state_dict (plfd_backbone t'), state_dict (auxiliarynet t')) =
            optimizer_step fw (optimizer t) (fst (pair b t))
              (if training (plfd_backbone t)
               then backbone_buffers fw (state_dict (plfd_backbone t)) (img b)
               else state_dict (plfd_backbone t),
               if training (auxiliarynet t)
               then auxiliary_buffers fw (state_dict (auxiliarynet t))
                      (fst (backbone_forward fw (training (plfd_backbone t)) (state_dict (plfd_backbone t)) (img b)))
               else state_dict (auxiliarynet t)) \<and>
          optimizer_steps (events t') = optimizer_steps (events t) + 1) \<and>
      train_loop fw a bs vars = foldl (\<lambda>v b. train_batch fw a b v) vars bs \<and>
      (dl epoch \<noteq> [] \<longrightarrow>
         train fw a (dl epoch) GPUs epoch s = Inr (pair (last (dl epoch)) (reached (n - 1)), reached n) \<and>
         optimizer_steps (events (reached n)) = optimizer_steps (events s) + n \<and>
         meter_count (fst (train_loop fw a (dl epoch) (train_begin GPUs epoch s))) = n \<and>
         meter_avg (fst (train_loop fw a (dl epoch) (train_begin GPUs epoch s))) =
           (\<Sum>k<n. item fw (snd (pair (dl epoch ! k) (reached k)))) / real n \<and>
         (writable fw (checkpoint_filename (snapshot a) epoch) \<longrightarrow>
            (\<exists>s'' evs.
               epoch_body fw a GPUs dl vl epoch s = Inr s'' \<and>
               events s'' = evs @
                 [Scheduler_step (fst (validate fw vl epoch (reached n))),
                  Add_scalar ''data/weighted_loss'' (fst (pair (last (dl epoch)) (reached (n - 1)))) epoch,
                  Add_scalars ''data/loss'' (fst (validate fw vl epoch (reached n)))
                    (snd (pair (last (dl epoch)) (reached (n - 1)))) epoch]))))"
proof -
  let ?vars = "train_begin GPUs epoch s"
  let ?reached = "\<lambda>k. snd (snd (train_loop fw a (take k (dl epoch)) ?vars))"
  let ?n = "length (dl epoch)"
  let ?r = "loss_pair fw a (last (dl epoch)) (?reached (?n - 1))"
  have step: "\<exists>m' t'.
          train_batch fw a b (m, p, t) = (m', Some (loss_pair fw a b t), t') \<and>
          meter_sum m' = meter_sum m + item fw (snd (loss_pair fw a b t)) \<and>
          meter_count m' = meter_count m + 1 \<and>
          meter_avg m' = meter_sum m' / real (meter_count m') \<and>
          (optimizer t', state_dict (plfd_backbone t'), state_dict (auxiliarynet t')) =
            optimizer_step fw (optimizer t) (fst (loss_pair fw a b t))
              (if training (plfd_backbone t)
               then backbone_buffers fw (state_dict (plfd_backbone t)) (img b)
               else state_dict (plfd_backbone t),
               if training (auxiliarynet t)
               then auxiliary_buffers fw (state_dict (auxiliarynet t))
                      (fst (backbone_forward fw (training (plfd_backbone t)) (state_dict (plfd_backbone t)) (img b)))
               else state_dict (auxiliarynet t)) \<and>
          optimizer_steps (events t') = optimizer_steps (events t) + 1"
    by (rule train_batch_step)
  have fold: "train_loop fw a bs vars = foldl (\<lambda>v b. train_batch fw a b v) vars bs"
    by (rule train_loop_foldl)
  have pass: "dl epoch \<noteq> [] \<longrightarrow>
         train fw a (dl epoch) GPUs epoch s = Inr (?r, ?reached ?n) \<and>
         optimizer_steps (events (?reached ?n)) = optimizer_steps (events s) + ?n \<and>
         meter_count (fst (train_loop fw a (dl epoch) ?vars)) = ?n \<and>
         meter_avg (fst (train_loop fw a (dl epoch) ?vars)) =
           (\<Sum>k<?n. item fw (snd (loss_pair fw a (dl epoch ! k) (?reached k)))) / real ?n \<and>
         (writable fw (checkpoint_filename (snapshot a) epoch) \<longrightarrow>
            (\<exists>s'' evs.
               epoch_body fw a GPUs dl vl epoch s = Inr s'' \<and>
               events s'' = evs @
                 [Scheduler_step (fst (validate fw vl epoch (?reached ?n))),
                  Add_scalar ''data/weighted_loss'' (fst ?r) epoch,
                  Add_scalars ''data/loss'' (fst (validate fw vl epoch (?reached ?n))) (snd ?r) epoch]))"
  proof (intro impI conjI)
    assume ne: "dl epoch \<noteq> []"
    note tp = train_pass [OF ne, of fw a GPUs epoch s]
    from tp show tr: "train fw a (dl epoch) GPUs epoch s = Inr (?r, ?reached ?n)"
      by blast
    from tp show "optimizer_steps (events (?reached ?n)) = optimizer_steps (events s) + ?n"
      by blast
    show "meter_count (fst (train_loop fw a (dl epoch) ?vars)) = ?n"
      by (simp add: train_loop_meter train_begin_fields AverageMeter_new_def)
    show "meter_avg (fst (train_loop fw a (dl epoch) ?vars)) =
           (\<Sum>k<?n. item fw (snd (loss_pair fw a (dl epoch ! k) (?reached k)))) / real ?n"
      using ne by (rule train_loop_mean)
    assume wr: "writable fw (checkpoint_filename (snapshot a) epoch)"
    from epoch_body_run [where dl = dl and e = epoch and fw = fw and a = a and GPUs = GPUs
        and vl = vl and s = s, OF ne wr]
    obtain s'' r s1 where b: "epoch_body fw a GPUs dl vl epoch s = Inr s''"
      and t: "train fw a (dl epoch) GPUs epoch s = Inr (r, s1)"
      and ev: "events s'' = events s @ epoch_events fw a (dl epoch) vl epoch s r (fst (validate fw vl epoch s1))"
      by blast
    from t tr have r: "r = ?r" and s1: "s1 = ?reached ?n"
      by simp_all
    have "\<exists>evs. events s'' = evs @
                 [Scheduler_step (fst (validate fw vl epoch (?reached ?n))),
                  Add_scalar ''data/weighted_loss'' (fst ?r) epoch,
                  Add_scalars ''data/loss'' (fst (validate fw vl epoch (?reached ?n))) (snd ?r) epoch]"
      unfolding ev epoch_events_def r s1
      by (metis append.assoc append_Cons)
    with b show "\<exists>s'' evs.
               epoch_body fw a GPUs dl vl epoch s = Inr s'' \<and>
               events s'' = evs @
                 [Scheduler_step (fst (validate fw vl epoch (?reached ?n))),
                  Add_scalar ''data/weighted_loss'' (fst ?r) epoch,
                  Add_scalars ''data/loss'' (fst (validate fw vl epoch (?reached ?n))) (snd ?r) epoch]"
      by blast
  qed
  from step fold pass show ?thesis
    unfolding Let_def loss_pair_def by blast
qed

theorem train_spec_witness:
  "train example_framework example_args (DataLoader_train example_framework ''train'' 128 1) [0] 1
     example_state =
     Inr (([[11, 3], [3, 11]], [[3]]),
          snd (snd (train_loop example_framework example_args
                      (DataLoader_train example_framework ''train'' 128 1)
                      (train_begin [0] 1 example_state)))) \<and>
   optimizer_steps (events (snd (snd (train_loop example_framework example_args
                      (DataLoader_train example_framework ''train'' 128 1)
                      (train_begin [0] 1 example_state))))) = 2 \<and>
   meter_avg (fst (train_loop example_framework example_args
                 (DataLoader_train example_framework ''train'' 128 1)
                 (train_begin [0] 1 example_state))) = 2 \<and>
   (\<exists>s'' evs v.
      epoch_body example_framework example_args [0] (DataLoader_train example_framework ''train'' 128)
        (DataLoader_val example_framework ''val'' 8) 1 example_state = Inr s'' \<and>
      events s'' = evs @ [Scheduler_step v, Add_scalar ''data/weighted_loss'' [[11, 3], [3, 11]] 1,
                          Add_scalars ''data/loss'' v [[3]] 1])"
proof -
  let ?dl = "DataLoader_train example_framework ''train'' 128"
  let ?vl = "DataLoader_val example_framework ''val'' 8"
  let ?vars = "train_begin [0] 1 example_state"
  let ?reached = "\<lambda>k. snd (snd (train_loop example_framework example_args (take k (?dl 1)) ?vars))"
  let ?pair = "\<lambda>b t.
          PFLDLoss example_framework (attribute_gt b) (landmark_gt b) (euler_angle_gt b)
            (auxiliary_forward example_framework (training (auxiliarynet t)) (state_dict (auxiliarynet t))
               (fst (backbone_forward example_framework (training (plfd_backbone t)) (state_dict (plfd_backbone t)) (img b))))
            (snd (backbone_forward example_framework (training (plfd_backbone t)) (state_dict (plfd_backbone t)) (img b)))
            (train_batchsize example_args)"
  let ?final = "snd (snd (train_loop example_framework example_args (?dl 1) ?vars))"
  have ne: "?dl 1 \<noteq> []"
    by (simp add: example_framework_def)
  have wr: "writable example_framework (checkpoint_filename (snapshot example_args) 1)"
    by (simp add: example_framework_def)
  have len: "length (?dl 1) = 2"
    by (simp add: example_framework_def)
  have pl: "?pair (last (?dl 1)) (?reached (length (?dl 1) - 1)) = ([[11, 3], [3, 11]], [[3]])"
    by code_simp
  have i0: "item example_framework (snd (?pair (?dl 1 ! 0) (?reached 0))) = 1"
    by code_simp
  have i1: "item example_framework (snd (?pair (?dl 1 ! 1) (?reached 1))) = 3"
    by code_simp
  have tk: "?reached (length (?dl 1)) = ?final"
    by simp
  have ev: "optimizer_steps (events example_state) = 0"
    by (simp add: example_state_def initial_state_def optimizer_steps_def)
  have sm: "(\<Sum>k<length (?dl 1). item example_framework (snd (?pair (?dl 1 ! k) (?reached k)))) =
              item example_framework (snd (?pair (?dl 1 ! 0) (?reached 0))) +
              item example_framework (snd (?pair (?dl 1 ! 1) (?reached 1)))"
    using len by (rule sum_two)
  note th = train_spec [where dl = ?dl and epoch = 1 and fw = example_framework and a = example_args
      and GPUs = "[0]" and s = example_state and vl = ?vl, unfolded Let_def]
  from th ne have 1: "train example_framework example_args (?dl 1) [0] 1 example_state =
      Inr (?pair (last (?dl 1)) (?reached (length (?dl 1) - 1)), ?reached (length (?dl 1)))"
    and 2: "optimizer_steps (events (?reached (length (?dl 1)))) =
              optimizer_steps (events example_state) + length (?dl 1)"
    and 3: "meter_avg (fst (train_loop example_framework example_args (?dl 1) ?vars)) =
           (\<Sum>k<length (?dl 1). item example_framework (snd (?pair (?dl 1 ! k) (?reached k)))) /
             real (length (?dl 1))"
    by blast+
  from th ne wr obtain s'' evs where 4: "epoch_body example_framework example_args [0] ?dl ?vl 1 example_state = Inr s''"
    and 5: "events s'' = evs @
                 [Scheduler_step (fst (validate example_framework ?vl 1 (?reached (length (?dl 1))))),
                  Add_scalar ''data/weighted_loss'' (fst (?pair (last (?dl 1)) (?reached (length (?dl 1) - 1)))) 1,
                  Add_scalars ''data/loss'' (fst (validate example_framework ?vl 1 (?reached (length (?dl 1)))))
                    (snd (?pair (last (?dl 1)) (?reached (length (?dl 1) - 1)))) 1]"
    by blast
  have a: "train example_framework example_args (?dl 1) [0] 1 example_state =
             Inr (([[11, 3], [3, 11]], [[3]]), ?final)"
    using 1 unfolding pl tk .
  have b: "optimizer_steps (events ?final) = 2"
    using 2 [unfolded tk] by (simp add: ev len)
  have c: "meter_avg (fst (train_loop example_framework example_args (?dl 1) ?vars)) = 2"
    using 3 [unfolded sm i0 i1] by (simp add: len)
  have "events s'' = evs @
          [Scheduler_step (fst (validate example_framework ?vl 1 ?final)),
           Add_scalar ''data/weighted_loss'' [[11, 3], [3, 11]] 1,
           Add_scalars ''data/loss'' (fst (validate example_framework ?vl 1 ?final)) [[3]] 1]"
    using 5 unfolding pl tk fst_conv snd_conv .
  with 4 have d: "\<exists>s'' evs v.
      epoch_body example_framework example_args [0] ?dl ?vl 1 example_state = Inr s'' \<and>
      events s'' = evs @ [Scheduler_step v, Add_scalar ''data/weighted_loss'' [[11, 3], [3, 11]] 1,
                          Add_scalars ''data/loss'' v [[3]] 1]"
    by blast
  from a b c d show ?thesis
    by blast
qed

section \<open>Resuming from a checkpoint\<close>

lemma network_outputs_files [simp]:
  "network_outputs fw b (s\<lparr>files := F\<rparr>) = network_outputs fw b s"
  by (simp add: network_outputs_def)

lemma criterion_files [simp]: "criterion fw a b (s\<lparr>files := F\<rparr>) = criterion fw a b s"
  by (simp add: criterion_def)















section \<open>The type of the learning-rate option\<close>

lemma dot_not_space: "\<not> is_space (CHR ''.'')"
  by code_simp

lemma dot_not_digit: "\<not> is_digit (CHR ''.'')"
  by code_simp

lemma dropWhile_keeps: "x \<in> set xs \<Longrightarrow> \<not> P x \<Longrightarrow> x \<in> set (dropWhile P xs)"
  by (induction xs) auto

lemma str_strip_keeps: "x \<in> set s \<Longrightarrow> \<not> is_space x \<Longrightarrow> x \<in> set (str_strip s)"
  by (simp add: str_strip_def dropWhile_keeps)

lemma int_digits_chars:
  "int_digits acc s = Some n \<Longrightarrow> c \<in> set s \<Longrightarrow> is_digit c \<or> c = CHR ''_''"
  by (induction acc s rule: int_digits.induct) (auto split: if_splits)

lemma int_literal_chars:
  "int_literal s = Some n \<Longrightarrow> c \<in> set s \<Longrightarrow> is_digit c \<or> c = CHR ''_''"
  by (cases s) (auto simp add: int_literal_def dest: int_digits_chars split: if_splits)

lemma int_literal_dot: "CHR ''.'' \<in> set s \<Longrightarrow> int_literal s = None"
  using int_literal_chars [of s _ "CHR ''.''"] dot_not_digit
  by (cases "int_literal s") auto

lemma py_int_dot:
  assumes "CHR ''.'' \<in> set v"
  shows "py_int v = Inl ValueError"
proof -
  have in_strip: "CHR ''.'' \<in> set (str_strip v)"
    using assms dot_not_space by (rule str_strip_keeps)
  show ?thesis
  proof (cases "str_strip v")
    case Nil
    then show ?thesis by (simp add: py_int_def)
  next
    case (Cons c cs)
    show ?thesis
    proof (cases "c = CHR ''-'' \<or> c = CHR ''+''")
      case True
      with in_strip Cons have "CHR ''.'' \<in> set cs" by auto
      then have "int_literal cs = None" by (rule int_literal_dot)
      with True Cons show ?thesis by (simp add: py_int_def)
    next
      case False
      from in_strip Cons have "int_literal (c # cs) = None"
        by (simp add: int_literal_dot)
      with False Cons show ?thesis by (simp add: py_int_def)
    qed
  qed
qed

lemma get_value_error: "get_value f v = Inl e \<Longrightarrow> e = SystemExit 2"
  by (simp add: get_value_def split: sum.splits)

lemma set_option_error: "set_option pf a ov = Inl e \<Longrightarrow> e = SystemExit 2"
  by (auto simp add: set_option_def Let_def bind_err_def dest: get_value_error
      split: if_splits sum.splits)

lemma parse_options_error: "parse_options pf a argv = Inl e \<Longrightarrow> e = SystemExit 2"
proof (induction argv arbitrary: a)
  case Nil
  then show ?case by simp
next
  case (Cons ov rest)
  then show ?case
    by (cases "set_option pf a ov") (auto dest: set_option_error)
qed

lemma set_option_base_lr:
  "set_option pf a (''--base_lr'', v) =
     (case py_int v of Inl e \<Rightarrow> Inl (SystemExit 2) | Inr n \<Rightarrow> Inr (a\<lparr>base_lr := IntNum n\<rparr>))"
  by (simp add: set_option_def get_value_def split: sum.splits)

lemma parse_options_bad_base_lr:
  assumes "(''--base_lr'', v) \<in> set argv" and "py_int v = Inl e"
  shows "parse_options pf a argv = Inl (SystemExit 2)"
  using assms(1)
proof (induction argv arbitrary: a)
  case Nil
  then show ?case by simp
next
  case (Cons ov rest)
  show ?case
  proof (cases "set_option pf a ov")
    case (Inl err)
    then show ?thesis by (simp add: set_option_error)
  next
    case (Inr a')
    with assms(2) have "ov \<noteq> (''--base_lr'', v)"
      by (auto simp add: set_option_base_lr)
    with Cons.prems have "(''--base_lr'', v) \<in> set rest" by simp
    from Cons.IH [OF this] Inr show ?thesis by simp
  qed
qed

lemma set_option_other:
  "fst ov \<noteq> ''--base_lr'' \<Longrightarrow> set_option pf a ov = Inr a' \<Longrightarrow> base_lr a' = base_lr a"
  by (auto simp add: set_option_def Let_def bind_err_def split: if_splits sum.splits)

lemma parse_options_absent:
  assumes "''--base_lr'' \<notin> fst ` set argv" and "parse_options pf a argv = Inr a'"
  shows "base_lr a' = base_lr a"
  using assms
proof (induction argv arbitrary: a)
  case Nil
  then show ?case by simp
next
  case (Cons ov rest)
  from Cons.prems(2) obtain a1 where s: "set_option pf a ov = Inr a1"
    and r: "parse_options pf a1 rest = Inr a'"
    by (cases "set_option pf a ov") simp_all
  from Cons.prems(1) have "fst ov \<noteq> ''--base_lr''" and "''--base_lr'' \<notin> fst ` set rest"
    by auto
  with Cons.IH [OF _ r] set_option_other [OF _ s] show ?case
    by simp
qed

lemma parse_options_present:
  assumes "parse_options pf a argv = Inr a'"
    and "''--base_lr'' \<in> fst ` set argv \<or> (\<exists>n. base_lr a = IntNum n)"
  shows "\<exists>n. base_lr a' = IntNum n"
  using assms
proof (induction argv arbitrary: a)
  case Nil
  then show ?case by simp
next
  case (Cons ov rest)
  from Cons.prems(1) obtain a1 where s: "set_option pf a ov = Inr a1"
    and r: "parse_options pf a1 rest = Inr a'"
    by (cases "set_option pf a ov") simp_all
  show ?case
  proof (cases "fst ov = ''--base_lr''")
    case True
    then obtain w where ov: "ov = (''--base_lr'', w)" by (cases ov) simp
    from s have "\<exists>n. base_lr a1 = IntNum n"
      unfolding ov by (cases "py_int w") (auto simp add: set_option_base_lr)
    with Cons.IH [OF r] show ?thesis by blast
  next
    case False
    with set_option_other [OF _ s] have "base_lr a1 = base_lr a" by simp
    with Cons.prems(2) False have "''--base_lr'' \<in> fst ` set rest \<or> (\<exists>n. base_lr a1 = IntNum n)"
      by auto
    with Cons.IH [OF r] show ?thesis by blast
  qed
qed

text \<open>
  Claim C10. The option \<^verbatim>\<open>--base_lr\<close> has the type \<^verbatim>\<open>int\<close>: a command line that gives it
  an argument with a decimal point makes \<open>parse_args\<close> exit with status 2, so that \<open>main\<close>
  is never entered. When the option is absent the learning rate is the floating-point
  default 0.0001; when it is present and the arguments parse, the learning rate is an
  integer.
\<close>

theorem base_lr_integer_type:
  "(CHR ''.'' \<in> set v \<and> (''--base_lr'', v) \<in> set argv \<longrightarrow>
      parse_args pf argv = Inl (SystemExit 2) \<and> program fw pf argv fs = Inl (SystemExit 2)) \<and>
   (''--base_lr'' \<notin> fst ` set argv \<and> parse_args pf argv = Inr a \<longrightarrow>
      base_lr a = FloatNum (1 / 10000)) \<and>
   (''--base_lr'' \<in> fst ` set argv \<and> parse_args pf argv = Inr a \<longrightarrow>
      (\<exists>n. base_lr a = IntNum n))"
proof (intro conjI impI)
  assume h: "CHR ''.'' \<in> set v \<and> (''--base_lr'', v) \<in> set argv"
  then have "py_int v = Inl ValueError" by (simp add: py_int_dot)
  with h show p: "parse_args pf argv = Inl (SystemExit 2)"
    using parse_options_bad_base_lr [of v argv ValueError pf default_args]
    by (simp add: parse_args_def)
  then show "program fw pf argv fs = Inl (SystemExit 2)"
    by (simp add: program_def)
next
  assume "''--base_lr'' \<notin> fst ` set argv \<and> parse_args pf argv = Inr a"
  then have "base_lr a = base_lr default_args"
    using parse_options_absent [of argv pf default_args a] by (simp add: parse_args_def)
  then show "base_lr a = FloatNum (1 / 10000)"
    by (simp add: default_args_def)
next
  assume "''--base_lr'' \<in> fst ` set argv \<and> parse_args pf argv = Inr a"
  then show "\<exists>n. base_lr a = IntNum n"
    using parse_options_present [of pf default_args argv a] by (simp add: parse_args_def)
qed

theorem base_lr_integer_type_witness:
  "parse_args (\<lambda>s. None) [(''--end_epoch'', ''5''), (''--base_lr'', ''0.0001'')] = Inl (SystemExit 2) \<and>
   program example_framework (\<lambda>s. None) [(''--end_epoch'', ''5''), (''--base_lr'', ''0.0001'')] Map.empty =
     Inl (SystemExit 2) \<and>
   base_lr default_args = FloatNum (1 / 10000) \<and>
   (\<exists>n. base_lr (default_args\<lparr>base_lr := IntNum 3\<rparr>) = IntNum n)"
proof -
  have d: "CHR ''.'' \<in> set ''0.0001'' \<and>
           (''--base_lr'', ''0.0001'') \<in> set [(''--end_epoch'', ''5''), (''--base_lr'', ''0.0001'')]"
    by simp
  have e: "''--base_lr'' \<notin> fst ` set [] \<and> parse_args (\<lambda>s. None) [] = Inr default_args"
    by (simp add: parse_args_def)
  have p: "parse_args (\<lambda>s. None) [(''--base_lr'', ''3'')] = Inr (default_args\<lparr>base_lr := IntNum 3\<rparr>)"
    by code_simp
  then have f: "''--base_lr'' \<in> fst ` set [(''--base_lr'', ''3'')] \<and>
           parse_args (\<lambda>s. None) [(''--base_lr'', ''3'')] = Inr (default_args\<lparr>base_lr := IntNum 3\<rparr>)"
    by simp
  from base_lr_integer_type [of "''0.0001''" "[(''--end_epoch'', ''5''), (''--base_lr'', ''0.0001'')]"
      "\<lambda>s. None" example_framework Map.empty] d
  have 1: "parse_args (\<lambda>s. None) [(''--end_epoch'', ''5''), (''--base_lr'', ''0.0001'')] = Inl (SystemExit 2) \<and>
   program example_framework (\<lambda>s. None) [(''--end_epoch'', ''5''), (''--base_lr'', ''0.0001'')] Map.empty =
     Inl (SystemExit 2)"
    by blast
  from base_lr_integer_type [where argv = "[]" and pf = "\<lambda>s. None" and a = default_args] e
  have 2: "base_lr default_args = FloatNum (1 / 10000)"
    by blast
  from base_lr_integer_type [where argv = "[(''--base_lr'', ''3'')]" and pf = "\<lambda>s. None"
      and a = "default_args\<lparr>base_lr := IntNum 3\<rparr>"] f
  have 3: "\<exists>n. base_lr (default_args\<lparr>base_lr := IntNum 3\<rparr>) = IntNum n"
    by blast
  from 1 2 3 show ?thesis by blast
qed

end
